theory Spec2Isabelle
  imports Complex_Main "HOL-Library.AList"
begin

section \<open>JavaScript string primitives used by the cost clients\<close>

text \<open>
  Strings are lists of 8-bit characters; the white space recognised by
  \<^verbatim>\<open>String.prototype.trim\<close> is restricted to its ASCII members
  (tab, line feed, vertical tab, form feed, carriage return, space).
\<close>

definition is_white_space :: "char \<Rightarrow> bool" where
  "is_white_space c =
     (c = CHR 0x09 \<or> c = CHR 0x0A \<or> c = CHR 0x0B \<or> c = CHR 0x0C \<or> c = CHR 0x0D \<or> c = CHR '' '')"

definition trimStart :: "string \<Rightarrow> string" where
  "trimStart s = dropWhile is_white_space s"

definition trim :: "string \<Rightarrow> string" where
  "trim s = rev (dropWhile is_white_space (rev (dropWhile is_white_space s)))"

definition startsWith :: "string \<Rightarrow> string \<Rightarrow> bool" where
  "startsWith s p = (take (length p) s = p)"

text \<open>\<^verbatim>\<open>s.slice(n)\<close> for \<open>0 \<le> n\<close>.\<close>

definition slice_from :: "string \<Rightarrow> nat \<Rightarrow> string" where
  "slice_from s n = drop n s"

text \<open>\<^verbatim>\<open>s.substring(0, n)\<close> and \<^verbatim>\<open>s.slice(a, b)\<close> for \<open>0 \<le> a \<le> b\<close>.\<close>

definition substring0 :: "string \<Rightarrow> nat \<Rightarrow> string" where
  "substring0 s n = take n s"

definition slice :: "string \<Rightarrow> nat \<Rightarrow> nat \<Rightarrow> string" where
  "slice s a b = take (b - a) (drop a s)"

fun includes_str :: "string \<Rightarrow> string \<Rightarrow> bool" where
  "includes_str [] sub = (sub = [])"
| "includes_str (c # cs) sub = (startsWith (c # cs) sub \<or> includes_str cs sub)"

text \<open>\<^verbatim>\<open>s.split(sep)\<close> for a one-character separator: never the empty list.\<close>

fun split :: "char \<Rightarrow> string \<Rightarrow> string list" where
  "split sep [] = [[]]"
| "split sep (c # cs) =
     (if c = sep then [] # split sep cs
      else (case split sep cs of [] \<Rightarrow> [[c]] | w # ws \<Rightarrow> (c # w) # ws))"

text \<open>\<^verbatim>\<open>xs.join(sep)\<close>.\<close>

fun join :: "string \<Rightarrow> string list \<Rightarrow> string" where
  "join sep [] = []"
| "join sep [x] = x"
| "join sep (x # y # ys) = x @ sep @ join sep (y # ys)"

text \<open>\<^verbatim>\<open>s.toUpperCase()\<close> on the ASCII letters.\<close>

definition toUpperCase :: "string \<Rightarrow> string" where
  "toUpperCase s =
     map (\<lambda>c. case map_of (zip ''abcdefghijklmnopqrstuvwxyz'' ''ABCDEFGHIJKLMNOPQRSTUVWXYZ'') c of
                 None \<Rightarrow> c
               | Some u \<Rightarrow> u) s"

text \<open>
  A value that may be \<^verbatim>\<open>undefined\<close> is an option; this is its rendering
  inside a template string.
\<close>

definition template_str :: "string option \<Rightarrow> string" where
  "template_str v = (case v of None \<Rightarrow> ''undefined'' | Some s \<Rightarrow> s)"

datatype error =
    TypeError
  | SyntaxError
  | Error "string option"

section \<open>Service-name conversion\<close>

text \<open>
  The loop over the prefixes tests the original \<open>serviceName\<close> every time and does
  not stop at the first hit: the last matching prefix decides.
\<close>

definition strip_prefixes :: "string list \<Rightarrow> string \<Rightarrow> string" where
  "strip_prefixes prefixes serviceName =
     foldl (\<lambda>convertedName prefix.
              if startsWith serviceName prefix
              then trim (slice_from serviceName (length prefix))
              else convertedName)
       serviceName prefixes"

definition aws_prefixes :: "string list" where
  "aws_prefixes = [''Amazon'', ''AWS'']"

definition aws_aliases :: "(string \<times> string) list" where
  "aws_aliases =
    [(''Elastic Compute Cloud - Compute'', ''EC2 - Instances''),
     (''Virtual Private Cloud'', ''VPC (Virtual Private Cloud)''),
     (''Relational Database Service'', ''RDS (Relational Database Service)''),
     (''Simple Storage Service'', ''S3 (Simple Storage Service)''),
     (''Managed Streaming for Apache Kafka'', ''MSK (Managed Streaming for Apache Kafka)''),
     (''Elastic Container Service for Kubernetes'',
      ''EKS (Elastic Container Service for Kubernetes)''),
     (''Elastic Container Service'', ''ECS (Elastic Container Service)''),
     (''EC2 Container Registry (ECR)'', ''ECR (Elastic Container Registry)''),
     (''Simple Queue Service'', ''SQS (Simple Queue Service)''),
     (''Simple Notification Service'', ''SNS (Simple Notification Service)''),
     (''Database Migration Service'', ''DMS (Database Migration Service)'')]"

text \<open>
  \<^verbatim>\<open>aliases.get(convertedName) || convertedName\<close>: an empty alias would be falsy.
  The provider tag (\<^verbatim>\<open>this.provider\<close>, \<^verbatim>\<open>this.providerName\<close>) is set by the base
  class and is a parameter here.
\<close>

definition aws_convertServiceName :: "string \<Rightarrow> string \<Rightarrow> string" where
  "aws_convertServiceName provider serviceName =
     (let convertedName = strip_prefixes aws_prefixes serviceName;
          convertedName' =
            (case map_of aws_aliases convertedName of
               None \<Rightarrow> convertedName
             | Some a \<Rightarrow> (if a = [] then convertedName else a))
      in provider @ ''/'' @ convertedName')"

definition azure_convertServiceName :: "string \<Rightarrow> string \<Rightarrow> string" where
  "azure_convertServiceName provider serviceName =
     provider @ ''/'' @ strip_prefixes [''Azure''] serviceName"

definition mongo_convertServiceName :: "string \<Rightarrow> string \<Rightarrow> string" where
  "mongo_convertServiceName provider serviceName =
     provider @ ''/'' @ strip_prefixes [''Atlas''] serviceName"

section \<open>Numbers\<close>

text \<open>
  A JavaScript number is modelled as an exact rational, the two infinities or NaN:
  the rounding of IEEE doubles is left out, additions and decimal literals are exact.
\<close>

datatype number = Fin rat | PInf | NInf | NaN

definition add_number :: "number \<Rightarrow> number \<Rightarrow> number" where
  "add_number x y =
     (case x of
        NaN \<Rightarrow> NaN
      | Fin a \<Rightarrow> (case y of Fin b \<Rightarrow> Fin (a + b) | PInf \<Rightarrow> PInf | NInf \<Rightarrow> NInf | NaN \<Rightarrow> NaN)
      | PInf \<Rightarrow> (case y of Fin b \<Rightarrow> PInf | PInf \<Rightarrow> PInf | NInf \<Rightarrow> NaN | NaN \<Rightarrow> NaN)
      | NInf \<Rightarrow> (case y of Fin b \<Rightarrow> NInf | PInf \<Rightarrow> NaN | NInf \<Rightarrow> NInf | NaN \<Rightarrow> NaN))"

text \<open>\<^verbatim>\<open>v || 0\<close> for a number that may be undefined: undefined, NaN and 0 are falsy.\<close>

definition or_zero :: "number option \<Rightarrow> number" where
  "or_zero v = (case v of None \<Rightarrow> Fin 0 | Some NaN \<Rightarrow> Fin 0 | Some x \<Rightarrow> x)"

definition is_digit :: "char \<Rightarrow> bool" where
  "is_digit c = (48 \<le> (of_char c :: nat) \<and> (of_char c :: nat) \<le> 57)"

definition digits_val :: "string \<Rightarrow> nat" where
  "digits_val ds = foldl (\<lambda>a c. 10 * a + ((of_char c :: nat) - 48)) 0 ds"

definition scale10 :: "rat \<Rightarrow> int \<Rightarrow> rat" where
  "scale10 m e = (if 0 \<le> e then m * 10 ^ nat e else m / 10 ^ nat (- e))"

text \<open>The exponent part of a decimal literal, 0 when there is none.\<close>

definition parse_exponent :: "string \<Rightarrow> int" where
  "parse_exponent r =
     (case r of
        [] \<Rightarrow> 0
      | c # r' \<Rightarrow>
          if c = CHR ''e'' \<or> c = CHR ''E'' then
            (let neg = startsWith r' ''-'';
                 r'' = (if startsWith r' ''-'' \<or> startsWith r' ''+'' then tl r' else r');
                 ds = takeWhile is_digit r''
             in if ds = [] then 0
                else if neg then - int (digits_val ds) else int (digits_val ds))
          else 0)"

text \<open>
  \<^verbatim>\<open>parseFloat\<close>: leading white space is skipped, then the longest prefix that is a
  decimal literal (sign, \<^verbatim>\<open>Infinity\<close> or digits with an optional fraction and exponent)
  is read; NaN when there is none.
\<close>

definition parseFloat :: "string \<Rightarrow> number" where
  "parseFloat s =
     (let s1 = trimStart s;
          neg = startsWith s1 ''-'';
          s2 = (if startsWith s1 ''-'' \<or> startsWith s1 ''+'' then tl s1 else s1)
      in if startsWith s2 ''Infinity'' then (if neg then NInf else PInf)
         else
           (let ip = takeWhile is_digit s2;
                r1 = dropWhile is_digit s2;
                has_dot = startsWith r1 ''.'';
                fp = (if has_dot then takeWhile is_digit (tl r1) else []);
                r2 = (if has_dot then dropWhile is_digit (tl r1) else r1)
            in if ip = [] \<and> fp = [] then NaN
               else
                 (let m = of_nat (digits_val ip) + of_nat (digits_val fp) / 10 ^ length fp
                  in Fin ((if neg then - 1 else 1) * scale10 m (parse_exponent r2)))))"

text \<open>\<^verbatim>\<open>parseInt(s, 10)\<close>; \<open>None\<close> is NaN.\<close>

definition parseInt10 :: "string \<Rightarrow> int option" where
  "parseInt10 s =
     (let s1 = trimStart s;
          neg = startsWith s1 ''-'';
          s2 = (if startsWith s1 ''-'' \<or> startsWith s1 ''+'' then tl s1 else s1);
          ds = takeWhile is_digit s2
      in if ds = [] then None
         else Some (if neg then - int (digits_val ds) else int (digits_val ds)))"

text \<open>The decimal rendering of an integer-valued number (below \<open>10\<^sup>2\<^sup>1\<close> in size).\<close>

function digits_of_nat :: "nat \<Rightarrow> string" where
  "digits_of_nat n =
     (if n < 10 then [''0123456789'' ! n]
      else digits_of_nat (n div 10) @ [''0123456789'' ! (n mod 10)])"
  by pat_completeness auto
termination
  by (relation "measure (\<lambda>n. n)") auto

declare digits_of_nat.simps [simp del]

definition int_toString :: "int \<Rightarrow> string" where
  "int_toString i = (if i < 0 then ''-'' @ digits_of_nat (nat (- i)) else digits_of_nat (nat i))"

section \<open>Dates\<close>

text \<open>
  A moment is its instant in epoch milliseconds, \<open>None\<close> when it is invalid. The host's
  time zone is a fixed offset \<open>tz\<close> in minutes east of UTC. Of the ISO 8601 forms that
  \<^verbatim>\<open>moment(string)\<close> reads, the model covers \<^verbatim>\<open>YYYY-MM\<close>, \<^verbatim>\<open>YYYY-MM-DD\<close> and
  \<^verbatim>\<open>YYYY-MM-DDTHH:mm:ss\<close> (also with a space for the T), read as local time; every
  other string is taken as invalid.
\<close>

type_synonym moment = "int option"

definition is_leap :: "int \<Rightarrow> bool" where
  "is_leap y = (y mod 4 = 0 \<and> (y mod 100 \<noteq> 0 \<or> y mod 400 = 0))"

definition days_in_month :: "int \<Rightarrow> int \<Rightarrow> int" where
  "days_in_month y m =
     (if m = 2 then (if is_leap y then 29 else 28)
      else if m = 4 \<or> m = 6 \<or> m = 9 \<or> m = 11 then 30 else 31)"

definition valid_ymd :: "int \<Rightarrow> int \<Rightarrow> int \<Rightarrow> bool" where
  "valid_ymd y m d = (1 \<le> m \<and> m \<le> 12 \<and> 1 \<le> d \<and> d \<le> days_in_month y m)"

text \<open>Days from 1970-01-01 to the given day of the proleptic Gregorian calendar.\<close>

definition days_from_civil :: "int \<Rightarrow> int \<Rightarrow> int \<Rightarrow> int" where
  "days_from_civil y m d =
     (let y' = (if m \<le> 2 then y - 1 else y);
          era = y' div 400;
          yoe = y' - era * 400;
          doy = (153 * (if m > 2 then m - 3 else m + 9) + 2) div 5 + d - 1;
          doe = yoe * 365 + yoe div 4 - yoe div 100 + doy
      in era * 146097 + doe - 719468)"

definition local_ms :: "int \<Rightarrow> int \<Rightarrow> int \<Rightarrow> int \<Rightarrow> int \<Rightarrow> int" where
  "local_ms tz y m d tod = days_from_civil y m d * 86400000 + tod - tz * 60000"

definition digits_n :: "nat \<Rightarrow> string \<Rightarrow> int option" where
  "digits_n n s = (if length s = n \<and> list_all is_digit s then Some (int (digits_val s)) else None)"

definition parse_iso_date :: "string \<Rightarrow> (int \<times> int \<times> int) option" where
  "parse_iso_date s =
     (if length s = 7 \<and> slice s 4 5 = ''-'' then
        (case (digits_n 4 (slice s 0 4), digits_n 2 (slice s 5 7)) of
           (Some y, Some m) \<Rightarrow> if valid_ymd y m 1 then Some (y, m, 1) else None
         | _ \<Rightarrow> None)
      else if length s = 10 \<and> slice s 4 5 = ''-'' \<and> slice s 7 8 = ''-'' then
        (case (digits_n 4 (slice s 0 4), digits_n 2 (slice s 5 7), digits_n 2 (slice s 8 10)) of
           (Some y, Some m, Some d) \<Rightarrow> if valid_ymd y m d then Some (y, m, d) else None
         | _ \<Rightarrow> None)
      else None)"

definition parse_iso_time :: "string \<Rightarrow> int option" where
  "parse_iso_time s =
     (if length s = 8 \<and> slice s 2 3 = '':'' \<and> slice s 5 6 = '':'' then
        (case (digits_n 2 (slice s 0 2), digits_n 2 (slice s 3 5), digits_n 2 (slice s 6 8)) of
           (Some h, Some mi, Some sec) \<Rightarrow>
             if h < 24 \<and> mi < 60 \<and> sec < 60 then Some (((h * 60 + mi) * 60 + sec) * 1000) else None
         | _ \<Rightarrow> None)
      else None)"

text \<open>\<^verbatim>\<open>moment(s)\<close> for a string.\<close>

definition moment_iso :: "int \<Rightarrow> string \<Rightarrow> moment" where
  "moment_iso tz s =
     (if length s = 19 \<and> (slice s 10 11 = ''T'' \<or> slice s 10 11 = '' '') then
        (case (parse_iso_date (slice s 0 10), parse_iso_time (slice s 11 19)) of
           (Some (y, m, d), Some tod) \<Rightarrow> Some (local_ms tz y m d tod)
         | _ \<Rightarrow> None)
      else
        (case parse_iso_date s of
           Some (y, m, d) \<Rightarrow> Some (local_ms tz y m d 0)
         | None \<Rightarrow> None))"

text \<open>\<^verbatim>\<open>moment(n)\<close> for a number: valid within the range of \<^verbatim>\<open>Date\<close>; NaN is invalid.\<close>

definition moment_ms :: "int option \<Rightarrow> moment" where
  "moment_ms n =
     (case n of
        None \<Rightarrow> None
      | Some ms \<Rightarrow> if - 8640000000000000 \<le> ms \<and> ms \<le> 8640000000000000 then Some ms else None)"

text \<open>\<^verbatim>\<open>a.isBefore(b)\<close>: false as soon as one of the two is invalid.\<close>

definition isBefore :: "moment \<Rightarrow> moment \<Rightarrow> bool" where
  "isBefore a b = (case (a, b) of (Some x, Some y) \<Rightarrow> x < y | _ \<Rightarrow> False)"

text \<open>\<^verbatim>\<open>moment(s, 'MM/DD/YYYY', true)\<close>: the strict parse, as year, month and day.\<close>

definition parse_mdy_strict :: "string \<Rightarrow> (int \<times> int \<times> int) option" where
  "parse_mdy_strict s =
     (if length s = 10 \<and> slice s 2 3 = ''/'' \<and> slice s 5 6 = ''/'' then
        (case (digits_n 2 (slice s 0 2), digits_n 2 (slice s 3 5), digits_n 4 (slice s 6 10)) of
           (Some m, Some d, Some y) \<Rightarrow> if valid_ymd y m d then Some (y, m, d) else None
         | _ \<Rightarrow> None)
      else None)"

definition pad_digits :: "nat \<Rightarrow> int \<Rightarrow> string" where
  "pad_digits n i = (let ds = digits_of_nat (nat i) in replicate (n - length ds) CHR ''0'' @ ds)"

text \<open>\<^verbatim>\<open>format('YYYY-MM')\<close> and \<^verbatim>\<open>format('YYYY-MM-DD')\<close>.\<close>

definition format_YYYY_MM :: "int \<times> int \<times> int \<Rightarrow> string" where
  "format_YYYY_MM ymd = (case ymd of (y, m, d) \<Rightarrow> pad_digits 4 y @ ''-'' @ pad_digits 2 m)"

definition format_YYYY_MM_DD :: "int \<times> int \<times> int \<Rightarrow> string" where
  "format_YYYY_MM_DD ymd =
     (case ymd of (y, m, d) \<Rightarrow> pad_digits 4 y @ ''-'' @ pad_digits 2 m @ ''-'' @ pad_digits 2 d)"

section \<open>Reports and the accumulator\<close>

text \<open>
  A \<^verbatim>\<open>Report\<close> is a JavaScript object: its properties in insertion order, where writing
  a property that exists replaces the value in place. The \<^verbatim>\<open>reports\<close> property holds
  the buckets; every other property is a string. The accumulator of a transform maps
  each \<open>keyName\<close> to its Report. Only own properties are modelled (nothing inherited
  from \<^verbatim>\<open>Object.prototype\<close>).
\<close>

datatype field = Str string | Reports "(string \<times> number) list"

type_synonym report = "(string \<times> field) list"

type_synonym accumulator = "(string \<times> report) list"

text \<open>An object literal: the properties are written from left to right.\<close>

definition object_literal :: "(string \<times> field) list \<Rightarrow> report" where
  "object_literal props = foldl (\<lambda>obj kv. AList.update (fst kv) (snd kv) obj) [] props"

text \<open>
  The literal of a new Report. The static tags are spread last, so a tag named like one
  of the fixed properties replaces it.
\<close>

definition new_report ::
  "string \<Rightarrow> string \<Rightarrow> string \<Rightarrow> string \<Rightarrow> string \<Rightarrow> (string \<times> string) list
     \<Rightarrow> (string \<times> string) list \<Rightarrow> report" where
  "new_report keyName name service category provider extras tagKeyValues =
     object_literal
       ([(''id'', Str keyName), (''name'', Str name), (''service'', Str service),
         (''category'', Str category), (''provider'', Str provider), (''reports'', Reports [])]
        @ map (\<lambda>kv. (fst kv, Str (snd kv))) extras
        @ map (\<lambda>kv. (fst kv, Str (snd kv))) tagKeyValues)"

text \<open>
  \<^verbatim>\<open>accumulator[keyName].reports[period] = v\<close>. Class bodies are strict code: when a
  static tag has replaced \<^verbatim>\<open>reports\<close> by a string, the write raises a TypeError, as
  does a missing Report.
\<close>

definition write_bucket :: "accumulator \<Rightarrow> string \<Rightarrow> string \<Rightarrow> number \<Rightarrow> error + accumulator" where
  "write_bucket acc keyName period v =
     (case map_of acc keyName of
        None \<Rightarrow> Inl TypeError
      | Some obj \<Rightarrow>
          (case map_of obj ''reports'' of
             Some (Reports r) \<Rightarrow>
               Inr (AList.update keyName
                      (AList.update ''reports'' (Reports (AList.update period v r)) obj) acc)
           | _ \<Rightarrow> Inl TypeError))"

text \<open>\<^verbatim>\<open>accumulator[keyName].reports[period]\<close>, undefined also when \<^verbatim>\<open>reports\<close> is a string.\<close>

definition read_bucket :: "accumulator \<Rightarrow> string \<Rightarrow> string \<Rightarrow> number option" where
  "read_bucket acc keyName period =
     (case map_of acc keyName of
        None \<Rightarrow> None
      | Some obj \<Rightarrow>
          (case map_of obj ''reports'' of
             Some (Reports r) \<Rightarrow> map_of r period
           | _ \<Rightarrow> None))"

text \<open>The fold of \<^verbatim>\<open>reduce\<close> and \<^verbatim>\<open>forEach\<close> with a callback that may throw.\<close>

fun fold_err :: "('a \<Rightarrow> 'b \<Rightarrow> error + 'a) \<Rightarrow> 'b list \<Rightarrow> 'a \<Rightarrow> error + 'a" where
  "fold_err f [] a = Inr a"
| "fold_err f (x # xs) a = (case f a x of Inl e \<Rightarrow> Inl e | Inr a' \<Rightarrow> fold_err f xs a')"

section \<open>Static tags of a sub-account\<close>

text \<open>
  \<^verbatim>\<open>const [k, v] = tag.split(':'); tagKeyValues[k.trim()] = v.trim();\<close>
  A tag without a colon leaves \<open>v\<close> undefined and \<^verbatim>\<open>v.trim()\<close> raises a TypeError.
\<close>

definition tag_step :: "(string \<times> string) list \<Rightarrow> string \<Rightarrow> error + (string \<times> string) list" where
  "tag_step tagKeyValues tag =
     (case split CHR '':'' tag of
        k # v # rest \<Rightarrow> Inr (AList.update (trim k) (trim v) tagKeyValues)
      | _ \<Rightarrow> Inl TypeError)"

definition static_tags :: "string list option \<Rightarrow> error + (string \<times> string) list" where
  "static_tags tags = (case tags of None \<Rightarrow> Inr [] | Some ts \<Rightarrow> fold_err tag_step ts [])"

text \<open>
  The part of the sub-account configuration and of the query that the transforms read.
  The provider tag and the category lookup
  \<^verbatim>\<open>getCategoryByServiceName(\<cdot>, categoryMappings)\<close> are parameters of each transform; the
  lookup is given the service name as the source passes it, undefined included.
\<close>

record account_config =
  name :: string
  tags :: "string list option"

record cost_query =
  startTime :: string
  endTime :: string
  granularity :: string

definition create_if_absent ::
  "accumulator \<Rightarrow> string \<Rightarrow> report \<Rightarrow> accumulator" where
  "create_if_absent acc keyName r =
     (case map_of acc keyName of None \<Rightarrow> acc @ [(keyName, r)] | Some obj \<Rightarrow> acc)"

section \<open>AWS: transformCostsData\<close>

text \<open>
  A group of \<^verbatim>\<open>ResultsByTime\<close>: its optional keys and its optional metrics, each metric
  name with its optional \<^verbatim>\<open>Amount\<close>. A row has the optional start of its time period
  and its optional groups.
\<close>

record aws_group =
  Keys :: "string list option"
  Metrics :: "(string \<times> string option) list option"

record aws_row =
  TimePeriod_Start :: "string option"
  Groups :: "aws_group list option"

definition aws_period :: "cost_query \<Rightarrow> aws_row \<Rightarrow> string" where
  "aws_period query row =
     (case TimePeriod_Start row of
        None \<Rightarrow> ''unknown''
      | Some rowTime \<Rightarrow>
          if rowTime = [] then ''unknown''
          else if toUpperCase (granularity query) = ''MONTHLY'' then substring0 rowTime 7
          else rowTime)"

definition aws_serviceName :: "aws_group \<Rightarrow> string option" where
  "aws_serviceName grp =
     (case Keys grp of None \<Rightarrow> Some [] | Some [] \<Rightarrow> None | Some (k # ks) \<Rightarrow> Some k)"

definition aws_keyName :: "string \<Rightarrow> aws_group \<Rightarrow> string" where
  "aws_keyName accountName grp = accountName @ ''_'' @ template_str (aws_serviceName grp)"

definition aws_group_step ::
  "string \<Rightarrow> (string option \<Rightarrow> string) \<Rightarrow> string \<Rightarrow> (string \<times> string) list \<Rightarrow> string
     \<Rightarrow> accumulator \<Rightarrow> aws_group \<Rightarrow> error + accumulator" where
  "aws_group_step provider category_of accountName tagKeyValues period accumulator grp =
     (let serviceName = aws_serviceName grp;
          keyName = aws_keyName accountName grp
      in case (if map_of accumulator keyName = None then
                 (case serviceName of
                    None \<Rightarrow> Inl TypeError
                  | Some sn \<Rightarrow>
                      Inr (accumulator @
                            [(keyName,
                              new_report keyName (provider @ ''/'' @ accountName)
                                (aws_convertServiceName provider sn) (category_of (Some sn))
                                provider [] tagKeyValues)]))
               else Inr accumulator) of
           Inl e \<Rightarrow> Inl e
         | Inr acc \<Rightarrow>
             (case Metrics grp of
                None \<Rightarrow> Inr acc
              | Some groupMetrics \<Rightarrow>
                  (case map_of groupMetrics ''UnblendedCost'' of
                     None \<Rightarrow> Inl TypeError
                   | Some amount \<Rightarrow>
                       write_bucket acc keyName period
                         (parseFloat (case amount of None \<Rightarrow> ''0.0'' | Some a \<Rightarrow> a)))))"

definition aws_row_step ::
  "string \<Rightarrow> (string option \<Rightarrow> string) \<Rightarrow> string \<Rightarrow> (string \<times> string) list \<Rightarrow> cost_query
     \<Rightarrow> accumulator \<Rightarrow> aws_row \<Rightarrow> error + accumulator" where
  "aws_row_step provider category_of accountName tagKeyValues query accumulator row =
     (case Groups row of
        None \<Rightarrow> Inr accumulator
      | Some gs \<Rightarrow>
          fold_err (aws_group_step provider category_of accountName tagKeyValues
                      (aws_period query row)) gs accumulator)"

definition aws_accumulate ::
  "string \<Rightarrow> (string option \<Rightarrow> string) \<Rightarrow> account_config \<Rightarrow> cost_query \<Rightarrow> aws_row list
     \<Rightarrow> error + accumulator" where
  "aws_accumulate provider category_of config query costResponse =
     (case static_tags (tags config) of
        Inl e \<Rightarrow> Inl e
      | Inr tagKeyValues \<Rightarrow>
          fold_err (aws_row_step provider category_of (name config) tagKeyValues query)
            costResponse [])"

definition aws_transformCostsData ::
  "string \<Rightarrow> (string option \<Rightarrow> string) \<Rightarrow> account_config \<Rightarrow> cost_query \<Rightarrow> aws_row list
     \<Rightarrow> error + report list" where
  "aws_transformCostsData provider category_of config query costResponse =
     (case aws_accumulate provider category_of config query costResponse of
        Inl e \<Rightarrow> Inl e
      | Inr acc \<Rightarrow> Inr (map snd acc))"

section \<open>Azure: formatDate and transformCostsData\<close>

text \<open>
  A row of the Azure response is \<^verbatim>\<open>[cost, date, serviceName, currency]\<close>: the date is
  the number \<^verbatim>\<open>YYYYMMDD\<close> (UsageDate, daily) or a string (BillingMonth, monthly); the
  cost is a number, or a text that \<^verbatim>\<open>parseFloat\<close> has to read.
\<close>

datatype azure_date = UsageDate int | BillingMonth string

datatype azure_cost = CostNumber number | CostText string

record azure_row =
  cost :: azure_cost
  date :: azure_date
  serviceName :: string

text \<open>\<^verbatim>\<open>formatDate\<close>; \<open>None\<close> is its \<^verbatim>\<open>null\<close>.\<close>

definition formatDate :: "azure_date \<Rightarrow> string option" where
  "formatDate dateNumber =
     (let dateString = (case dateNumber of UsageDate n \<Rightarrow> int_toString n | BillingMonth s \<Rightarrow> s)
      in if length dateString \<noteq> 8 then None
         else
           (let year = slice dateString 0 4;
                month = slice dateString 4 6;
                day = slice_from dateString 6
            in Some (year @ ''-'' @ month @ ''-'' @ day)))"

text \<open>The value of the variable \<^verbatim>\<open>date\<close> once the daily reformatting is done.\<close>

datatype date_value = DateNull | DateString string | DateNumber int

definition azure_date_value :: "cost_query \<Rightarrow> azure_row \<Rightarrow> date_value" where
  "azure_date_value query row =
     (if toUpperCase (granularity query) = ''DAILY'' then
        (case formatDate (date row) of None \<Rightarrow> DateNull | Some s \<Rightarrow> DateString s)
      else (case date row of UsageDate n \<Rightarrow> DateNumber n | BillingMonth s \<Rightarrow> DateString s))"

text \<open>\<^verbatim>\<open>moment(date)\<close>: null gives an invalid moment.\<close>

definition moment_of :: "int \<Rightarrow> date_value \<Rightarrow> moment" where
  "moment_of tz d =
     (case d of
        DateNull \<Rightarrow> None
      | DateString s \<Rightarrow> moment_iso tz s
      | DateNumber n \<Rightarrow> moment_ms (Some n))"

text \<open>The property name that \<^verbatim>\<open>reports[date]\<close> writes.\<close>

definition property_key :: "date_value \<Rightarrow> string" where
  "property_key d =
     (case d of DateNull \<Rightarrow> ''null'' | DateString s \<Rightarrow> s | DateNumber n \<Rightarrow> int_toString n)"

definition parseFloat_cost :: "azure_cost \<Rightarrow> number" where
  "parseFloat_cost c = (case c of CostNumber n \<Rightarrow> n | CostText s \<Rightarrow> parseFloat s)"

definition azure_keyName :: "string \<Rightarrow> azure_row \<Rightarrow> string" where
  "azure_keyName accountName row = accountName @ ''->'' @ serviceName row"

definition azure_row_step ::
  "string \<Rightarrow> (string option \<Rightarrow> string) \<Rightarrow> int \<Rightarrow> string \<Rightarrow> (string \<times> string) list
     \<Rightarrow> cost_query \<Rightarrow> accumulator \<Rightarrow> azure_row \<Rightarrow> error + accumulator" where
  "azure_row_step provider category_of tz accountName tagKeyValues query accumulator row =
     (let date' = azure_date_value query row;
          keyName = azure_keyName accountName row;
          acc = create_if_absent accumulator keyName
                  (new_report keyName (provider @ ''/'' @ accountName)
                     (azure_convertServiceName provider (serviceName row))
                     (category_of (Some (serviceName row))) provider [] tagKeyValues)
      in if \<not> isBefore (moment_of tz date') (moment_ms (parseInt10 (startTime query))) then
           (if toUpperCase (granularity query) = ''MONTHLY'' then
              (case date' of
                 DateString s \<Rightarrow>
                   write_bucket acc keyName (substring0 s 7) (parseFloat_cost (cost row))
               | _ \<Rightarrow> Inl TypeError)
            else write_bucket acc keyName (property_key date') (parseFloat_cost (cost row)))
         else Inr acc)"

definition azure_accumulate ::
  "string \<Rightarrow> (string option \<Rightarrow> string) \<Rightarrow> int \<Rightarrow> account_config \<Rightarrow> cost_query
     \<Rightarrow> azure_row list \<Rightarrow> error + accumulator" where
  "azure_accumulate provider category_of tz config query costResponse =
     (case static_tags (tags config) of
        Inl e \<Rightarrow> Inl e
      | Inr tagKeyValues \<Rightarrow>
          fold_err (azure_row_step provider category_of tz (name config) tagKeyValues query)
            costResponse [])"

definition azure_transformCostsData ::
  "string \<Rightarrow> (string option \<Rightarrow> string) \<Rightarrow> int \<Rightarrow> account_config \<Rightarrow> cost_query
     \<Rightarrow> azure_row list \<Rightarrow> error + report list" where
  "azure_transformCostsData provider category_of tz config query costResponse =
     (case azure_accumulate provider category_of tz config query costResponse of
        Inl e \<Rightarrow> Inl e
      | Inr acc \<Rightarrow> Inr (map snd acc))"

section \<open>MongoAtlas: transformCostsData\<close>

text \<open>
  \<^verbatim>\<open>rowData[columnName] = columns[index]\<close> for every header column: a later column of
  the same name wins, a column beyond the end of the line is undefined.
\<close>

definition row_data :: "string list \<Rightarrow> string list \<Rightarrow> string \<Rightarrow> string option" where
  "row_data header columns columnName =
     (case map_of (rev (zip header
                     (map Some columns @ replicate (length header - length columns) None)))
             columnName of
        None \<Rightarrow> None
      | Some v \<Rightarrow> v)"

text \<open>\<^verbatim>\<open>v || 'Unknown'\<close>: undefined and the empty string are falsy.\<close>

definition or_Unknown :: "string option \<Rightarrow> string" where
  "or_Unknown v = (case v of None \<Rightarrow> ''Unknown'' | Some s \<Rightarrow> if s = [] then ''Unknown'' else s)"

definition mongo_parsedDate :: "(string \<Rightarrow> string option) \<Rightarrow> (int \<times> int \<times> int) option" where
  "mongo_parsedDate rowData = parse_mdy_strict (template_str (rowData ''Date''))"

definition mongo_billingPeriod :: "cost_query \<Rightarrow> int \<times> int \<times> int \<Rightarrow> string" where
  "mongo_billingPeriod query parsedDate =
     (if toUpperCase (granularity query) = ''MONTHLY'' then format_YYYY_MM parsedDate
      else format_YYYY_MM_DD parsedDate)"

definition mongo_keyName ::
  "(string option \<Rightarrow> string) \<Rightarrow> string \<Rightarrow> (string \<Rightarrow> string option) \<Rightarrow> string" where
  "mongo_keyName category_of accountName rowData =
     accountName @ ''->'' @ category_of (rowData ''SKU'') @ ''->''
       @ or_Unknown (rowData ''Project'') @ ''->'' @ or_Unknown (rowData ''Cluster'')"

definition mongo_amount :: "(string \<Rightarrow> string option) \<Rightarrow> number" where
  "mongo_amount rowData = or_zero (Some (parseFloat (template_str (rowData ''Amount''))))"

definition mongo_row_step ::
  "string \<Rightarrow> (string option \<Rightarrow> string) \<Rightarrow> int \<Rightarrow> string \<Rightarrow> (string \<times> string) list
     \<Rightarrow> cost_query \<Rightarrow> string list \<Rightarrow> accumulator \<Rightarrow> string \<Rightarrow> error + accumulator" where
  "mongo_row_step provider category_of tz accountName tagKeyValues query header accumulator line =
     (let columns = split CHR '','' line;
          rowData = row_data header columns;
          amount = mongo_amount rowData
      in case mongo_parsedDate rowData of
           None \<Rightarrow> Inr accumulator
         | Some parsedDate \<Rightarrow>
             (let billingPeriod = mongo_billingPeriod query parsedDate;
                  serviceName = rowData ''SKU'';
                  cluster = or_Unknown (rowData ''Cluster'');
                  project = or_Unknown (rowData ''Project'');
                  keyName = mongo_keyName category_of accountName rowData
              in case (if map_of accumulator keyName = None then
                         (case serviceName of
                            None \<Rightarrow> Inl TypeError
                          | Some sn \<Rightarrow>
                              Inr (accumulator @
                                    [(keyName,
                                      new_report keyName (provider @ ''/'' @ accountName)
                                        (mongo_convertServiceName provider sn)
                                        (category_of serviceName) provider
                                        [(''project'', project), (''cluster'', cluster)]
                                        tagKeyValues)]))
                       else Inr accumulator) of
                   Inl e \<Rightarrow> Inl e
                 | Inr acc \<Rightarrow>
                     if \<not> isBefore (moment_iso tz billingPeriod)
                              (moment_ms (parseInt10 (startTime query))) then
                       write_bucket acc keyName billingPeriod
                         (add_number (or_zero (read_bucket acc keyName billingPeriod)) amount)
                     else Inr acc))"

definition mongo_accumulate ::
  "string \<Rightarrow> (string option \<Rightarrow> string) \<Rightarrow> int \<Rightarrow> account_config \<Rightarrow> cost_query \<Rightarrow> string
     \<Rightarrow> error + accumulator" where
  "mongo_accumulate provider category_of tz config query costResponse =
     (case static_tags (tags config) of
        Inl e \<Rightarrow> Inl e
      | Inr tagKeyValues \<Rightarrow>
          (case split CHR 0x0A costResponse of
             [] \<Rightarrow> Inl TypeError
           | line0 # rows \<Rightarrow>
               fold_err (mongo_row_step provider category_of tz (name config) tagKeyValues
                           query (split CHR '','' line0)) rows []))"

definition mongo_transformCostsData ::
  "string \<Rightarrow> (string option \<Rightarrow> string) \<Rightarrow> int \<Rightarrow> account_config \<Rightarrow> cost_query \<Rightarrow> string
     \<Rightarrow> error + report list" where
  "mongo_transformCostsData provider category_of tz config query costResponse =
     (case mongo_accumulate provider category_of tz config query costResponse of
        Inl e \<Rightarrow> Inl e
      | Inr acc \<Rightarrow> Inr (map snd acc))"

section \<open>Azure: fetchDataWithRetry\<close>

text \<open>
  What the loop reads of a response: the status, the body and the rate-limit header
  \<^verbatim>\<open>x-ms-ratelimit-microsoft.costmanagement-entity-retry-after\<close>. The request is
  the same at every attempt, so the endpoint is the sequence \<open>send\<close> of its responses:
  \<open>send n\<close> answers the attempt made after \<open>n\<close> retries. \<^verbatim>\<open>JSON.parse\<close> is the
  parameter \<open>json_parse\<close>, \<open>None\<close> when it raises a SyntaxError. The loop returns its
  outcome together with the delays it has slept, in order, each in milliseconds
  (\<open>None\<close> for a NaN delay).
\<close>

record response =
  status :: int
  bodyAsText :: "string option"
  retry_after_header :: "string option"

text \<open>\<^verbatim>\<open>s || d\<close> for a string that may be undefined.\<close>

definition or_string :: "string option \<Rightarrow> string \<Rightarrow> string" where
  "or_string v d = (case v of None \<Rightarrow> d | Some s \<Rightarrow> if s = [] then d else s)"

definition retryAfter :: "response \<Rightarrow> int option" where
  "retryAfter r = parseInt10 (or_string (retry_after_header r) ''60'')"

function retry_loop ::
  "(nat \<Rightarrow> response) \<Rightarrow> (string \<Rightarrow> 'j option) \<Rightarrow> nat \<Rightarrow> nat \<Rightarrow> int option list
     \<Rightarrow> (error + 'j) \<times> int option list" where
  "retry_loop send json_parse maxRetries retries sleeps =
     (if retries < maxRetries then
        (let r = send retries
         in if status r = 200 then
              ((case json_parse (or_string (bodyAsText r) ''{}'') of
                  None \<Rightarrow> Inl SyntaxError
                | Some j \<Rightarrow> Inr j), sleeps)
            else if status r = 429 then
              retry_loop send json_parse maxRetries (Suc retries)
                (sleeps @ [map_option (\<lambda>s. s * 1000) (retryAfter r)])
            else (Inl (Error (bodyAsText r)), sleeps))
      else (Inl (Error (Some ''Max retries exceeded'')), sleeps))"
  by pat_completeness auto
termination
  by (relation "measure (\<lambda>(send, json_parse, maxRetries, retries, sleeps). maxRetries - retries)")
    auto

declare retry_loop.simps [simp del]

definition fetchDataWithRetry ::
  "(nat \<Rightarrow> response) \<Rightarrow> (string \<Rightarrow> 'j option) \<Rightarrow> (error + 'j) \<times> int option list" where
  "fetchDataWithRetry send json_parse = retry_loop send json_parse 5 0 []"

section \<open>Tag filters of fetchCosts\<close>

text \<open>
  \<^verbatim>\<open>parseTags(query.tags)\<close> is imported from the service functions; its result, the
  list of parsed tags, is the input \<open>parsedTags\<close> here. A tag's value may be undefined.
\<close>

record tag =
  tag_key :: string
  tag_value :: "string option"

datatype expression =
    Dimensions string "string list"
  | Tags string "string option list"
  | Or "expression list"
  | And "expression list"

definition aws_filterExpression :: "tag list \<Rightarrow> expression" where
  "aws_filterExpression parsedTags =
     (let filterExpression = Dimensions ''RECORD_TYPE'' [''Usage'']
      in case parsedTags of
           [] \<Rightarrow> filterExpression
         | [t] \<Rightarrow> And [filterExpression, Tags (tag_key t) [tag_value t]]
         | _ \<Rightarrow> And [filterExpression, Or (map (\<lambda>t. Tags (tag_key t) [tag_value t]) parsedTags)])"

datatype query_filter =
    Filter_tags string string "string option list"
  | Filter_or "query_filter list"

definition azure_filter :: "tag list \<Rightarrow> query_filter option" where
  "azure_filter parsedTags =
     (case parsedTags of
        [] \<Rightarrow> None
      | [t] \<Rightarrow> Some (Filter_tags (tag_key t) ''In'' [tag_value t])
      | _ \<Rightarrow> Some (Filter_or (map (\<lambda>t. Filter_tags (tag_key t) ''In'' [tag_value t]) parsedTags)))"

section \<open>MongoAtlas: the invoice CSVs of fetchCostsFromCloud\<close>

text \<open>
  The callback of \<^verbatim>\<open>lines.filter\<close> with its flag \<^verbatim>\<open>foundOrganizationIdLine\<close>: the
  lines that are kept, untrimmed.
\<close>

fun filter_lines :: "bool \<Rightarrow> string list \<Rightarrow> string list" where
  "filter_lines foundOrganizationIdLine [] = []"
| "filter_lines foundOrganizationIdLine (line # lines) =
     (let trimmedLine = trim line
      in if startsWith trimmedLine ''Organization ID,'' then filter_lines True lines
         else if \<not> foundOrganizationIdLine then filter_lines foundOrganizationIdLine lines
         else if trimmedLine \<noteq> [] \<and> \<not> includes_str trimmedLine ''Credit''
           then line # filter_lines foundOrganizationIdLine lines
         else filter_lines foundOrganizationIdLine lines)"

definition filteredLines :: "string \<Rightarrow> string" where
  "filteredLines csv = join [CHR 0x0A] (filter_lines False (split CHR 0x0A csv))"

text \<open>
  The response to a request: status, status text and body. \<^verbatim>\<open>Promise.all\<close> gives the
  results in the order of the invoice list, whatever the order in which the downloads end;
  when several downloads fail it rejects with the one that fails first in time, for
  which the model takes the first in the list.
\<close>

record http_response =
  http_status :: int
  statusText :: string
  body :: string

definition invoice_csv :: "http_response \<Rightarrow> error + string" where
  "invoice_csv csvResponse =
     (if http_status csvResponse \<noteq> 200 then
        Inl (Error (Some (''Error fetching invoice CSV: '' @ int_toString (http_status csvResponse)
                           @ '' '' @ statusText csvResponse)))
      else Inr (filteredLines (body csvResponse)))"

fun all_invoices :: "http_response list \<Rightarrow> error + string list" where
  "all_invoices [] = Inr []"
| "all_invoices (r # rs) =
     (case invoice_csv r of
        Inl e \<Rightarrow> Inl e
      | Inr x \<Rightarrow> (case all_invoices rs of Inl e \<Rightarrow> Inl e | Inr xs \<Rightarrow> Inr (x # xs)))"

text \<open>
  \<open>invoices_status\<close> and \<open>invoices_statusText\<close> are those of the invoice-list response,
  \<open>csvResponses\<close> the CSV responses of its invoices, in the order of that list.
\<close>

definition fetchCostsFromCloud :: "int \<Rightarrow> string \<Rightarrow> http_response list \<Rightarrow> error + string" where
  "fetchCostsFromCloud invoices_status invoices_statusText csvResponses =
     (if invoices_status \<noteq> 200 then
        Inl (Error (Some (''Error fetching invoices: '' @ int_toString invoices_status
                           @ '' '' @ invoices_statusText)))
      else (case all_invoices csvResponses of
              Inl e \<Rightarrow> Inl e
            | Inr allInvoicesData \<Rightarrow> Inr (join [CHR 0x0A] allInvoicesData)))"

section \<open>Auxiliary definitions for the statements\<close>

text \<open>
  The delays that the retry loop has slept after the attempts \<open>n, \<dots>, n + k - 1\<close> were
  all rate-limited.
\<close>

definition sleeps_of :: "(nat \<Rightarrow> response) \<Rightarrow> nat \<Rightarrow> nat \<Rightarrow> int option list" where
  "sleeps_of send n k = map (\<lambda>i. map_option (\<lambda>s. s * 1000) (retryAfter (send i))) [n..<n + k]"

text \<open>An endpoint that answers 429 three times (once with a retry-after of 7 s), then 200.\<close>

definition three_429_then_200 :: "nat \<Rightarrow> response" where
  "three_429_then_200 n =
     (if n < 3 then \<lparr>status = 429, bodyAsText = None,
                     retry_after_header = (if n = 1 then Some ''7'' else None)\<rparr>
      else \<lparr>status = 200, bodyAsText = Some ''{\"properties\":{}}'', retry_after_header = None\<rparr>)"

text \<open>
  An invoice CSV in which the word Credit occurs in the project of one row and is the
  SKU of another.
\<close>

definition invoice_with_credit_project :: string where
  "invoice_with_credit_project =
     ''Invoice 1'' @ [CHR 0x0A]
     @ ''Organization ID,Project,SKU,Amount'' @ [CHR 0x0A]
     @ ''org1,CreditApp,Atlas Data Transfer,5'' @ [CHR 0x0A]
     @ [CHR 0x0A]
     @ ''org1,Main,Credit,-3'' @ [CHR 0x0A]
     @ ''org1,Main,Atlas Instance,10''"

text \<open>The \<^verbatim>\<open>id\<close> property of a Report.\<close>

definition report_id :: "report \<Rightarrow> field option" where
  "report_id r = map_of r ''id''"

text \<open>The key names of the input of a transform, in the order in which it meets them.\<close>

definition aws_keyNames :: "string \<Rightarrow> aws_row list \<Rightarrow> string list" where
  "aws_keyNames accountName rows =
     concat (map (\<lambda>row. case Groups row of
                           None \<Rightarrow> []
                         | Some gs \<Rightarrow> map (aws_keyName accountName) gs) rows)"

definition azure_keyNames :: "string \<Rightarrow> azure_row list \<Rightarrow> string list" where
  "azure_keyNames accountName rows = map (azure_keyName accountName) rows"

text \<open>MongoAtlas: the lines after the header line whose date parses.\<close>

definition mongo_keyNames :: "(string option \<Rightarrow> string) \<Rightarrow> string \<Rightarrow> string \<Rightarrow> string list" where
  "mongo_keyNames category_of accountName costResponse =
     (case split CHR 0x0A costResponse of
        [] \<Rightarrow> []
      | line0 # rows \<Rightarrow>
          concat (map (\<lambda>line.
                    let rowData = row_data (split CHR '','' line0) (split CHR '','' line)
                    in case mongo_parsedDate rowData of
                         None \<Rightarrow> []
                       | Some d \<Rightarrow> [mongo_keyName category_of accountName rowData]) rows))"

text \<open>
  The accumulator holds one Report per key name, and the \<^verbatim>\<open>id\<close> of each Report is its
  key name.
\<close>

definition ids_match :: "accumulator \<Rightarrow> bool" where
  "ids_match acc =
     (distinct (map fst acc) \<and> (\<forall>k r. map_of acc k = Some r \<longrightarrow> map_of r ''id'' = Some (Str k)))"

section \<open>Sample inputs\<close>

definition sample_config :: account_config where
  "sample_config = \<lparr>name = ''prod'', tags = Some [''team: core'']\<rparr>"

text \<open>The query from 2024-04-01T00:00:00Z to 2024-06-01T00:00:00Z, by month.\<close>

definition sample_query :: cost_query where
  "sample_query =
     \<lparr>startTime = ''1711929600000'', endTime = ''1717200000000'', granularity = ''monthly''\<rparr>"

definition uncategorized :: "string option \<Rightarrow> string" where
  "uncategorized sn = ''Uncategorized''"

text \<open>
  Two monthly results of one AWS service, 100 in April and 120 in May 2024, then a
  second result for April with 70.
\<close>

definition aws_april_100 :: aws_row where
  "aws_april_100 =
     \<lparr>TimePeriod_Start = Some ''2024-04-01'',
      Groups = Some [\<lparr>Keys = Some [''Amazon Elastic Compute Cloud - Compute''],
                      Metrics = Some [(''UnblendedCost'', Some ''100'')]\<rparr>]\<rparr>"

definition aws_may_120 :: aws_row where
  "aws_may_120 =
     \<lparr>TimePeriod_Start = Some ''2024-05-01'',
      Groups = Some [\<lparr>Keys = Some [''Amazon Elastic Compute Cloud - Compute''],
                      Metrics = Some [(''UnblendedCost'', Some ''120'')]\<rparr>]\<rparr>"

definition aws_april_70 :: aws_row where
  "aws_april_70 =
     \<lparr>TimePeriod_Start = Some ''2024-04-01'',
      Groups = Some [\<lparr>Keys = Some [''Amazon Elastic Compute Cloud - Compute''],
                      Metrics = Some [(''UnblendedCost'', Some ''70'')]\<rparr>]\<rparr>"

definition aws_sample_rows :: "aws_row list" where
  "aws_sample_rows = [aws_april_100, aws_may_120, aws_april_70]"

text \<open>Two Azure rows of one service in April 2024, 10 and then 5, by month.\<close>

definition azure_april_row :: azure_row where
  "azure_april_row =
     \<lparr>cost = CostNumber (Fin 10), date = BillingMonth ''2024-04-01T00:00:00'',
      serviceName = ''Azure App Service''\<rparr>"

definition azure_april_row2 :: azure_row where
  "azure_april_row2 =
     \<lparr>cost = CostNumber (Fin 5), date = BillingMonth ''2024-04-01T00:00:00'',
      serviceName = ''Azure App Service''\<rparr>"

definition azure_sample_rows :: "azure_row list" where
  "azure_sample_rows = [azure_april_row, azure_april_row2]"

text \<open>
  A MongoAtlas CSV with two rows of one project and cluster in April 2024, dated
  2024-04-05 and 2024-04-28, with the amounts 10 and 5 and two different SKUs.
\<close>

definition mongo_sample_header :: string where
  "mongo_sample_header = ''Date,SKU,Project,Cluster,Amount''"

definition mongo_april_line :: string where
  "mongo_april_line = ''04/05/2024,Atlas Instance,p1,c1,10''"

definition mongo_april_line2 :: string where
  "mongo_april_line2 = ''04/28/2024,Atlas Backup,p1,c1,5''"

definition mongo_sample_csv :: string where
  "mongo_sample_csv =
     (mongo_sample_header @ CHR 0x0A # mongo_april_line) @ CHR 0x0A # mongo_april_line2"

text \<open>The Reports that the transforms make of the sample inputs.\<close>

definition aws_sample_report :: report where
  "aws_sample_report =
     [(''id'', Str ''prod_Amazon Elastic Compute Cloud - Compute''), (''name'', Str ''AWS/prod''),
      (''service'', Str ''AWS/EC2 - Instances''), (''category'', Str ''Uncategorized''),
      (''provider'', Str ''AWS''),
      (''reports'', Reports [(''2024-04'', Fin 70), (''2024-05'', Fin 120)]),
      (''team'', Str ''core'')]"

definition azure_sample_report :: report where
  "azure_sample_report =
     [(''id'', Str ''prod->Azure App Service''), (''name'', Str ''Azure/prod''),
      (''service'', Str ''Azure/App Service''), (''category'', Str ''Uncategorized''),
      (''provider'', Str ''Azure''), (''reports'', Reports [(''2024-04'', Fin 5)]),
      (''team'', Str ''core'')]"

definition mongo_sample_report :: report where
  "mongo_sample_report =
     [(''id'', Str ''prod->Uncategorized->p1->c1''), (''name'', Str ''MongoAtlas/prod''),
      (''service'', Str ''MongoAtlas/Instance''), (''category'', Str ''Uncategorized''),
      (''provider'', Str ''MongoAtlas''), (''reports'', Reports [(''2024-04'', Fin 15)]),
      (''project'', Str ''p1''), (''cluster'', Str ''c1''), (''team'', Str ''core'')]"



text \<open>Only the bucket \<open>p\<close> of the key \<open>k\<close> may differ between two accumulators.\<close>

definition same_buckets_except :: "string \<Rightarrow> string \<Rightarrow> accumulator \<Rightarrow> accumulator \<Rightarrow> bool" where
  "same_buckets_except k p acc acc' =
     (\<forall>k' p'. (k', p') \<noteq> (k, p) \<longrightarrow> read_bucket acc' k' p' = read_bucket acc k' p')"








section \<open>The buckets of a whole batch\<close>

text \<open>
  A contribution is a value for the bucket \<open>p\<close> of the key \<open>k\<close>, written \<open>((k, p), v)\<close>.
  A batch contributes, in order: for AWS, every group that has metrics with an
  UnblendedCost; for Azure, every row that passes the start-time test; for MongoAtlas,
  every line after the header whose date parses and whose bucket passes the start-time
  test.
\<close>

type_synonym contribution = "(string \<times> string) \<times> number"

definition aws_group_contribution :: "string \<Rightarrow> string \<Rightarrow> aws_group \<Rightarrow> contribution list" where
  "aws_group_contribution accountName period grp =
     (case Metrics grp of
        None \<Rightarrow> []
      | Some groupMetrics \<Rightarrow>
          (case map_of groupMetrics ''UnblendedCost'' of
             None \<Rightarrow> []
           | Some amount \<Rightarrow>
               [((aws_keyName accountName grp, period),
                 parseFloat (case amount of None \<Rightarrow> ''0.0'' | Some a \<Rightarrow> a))]))"

definition aws_row_contributions :: "cost_query \<Rightarrow> string \<Rightarrow> aws_row \<Rightarrow> contribution list" where
  "aws_row_contributions query accountName row =
     (case Groups row of
        None \<Rightarrow> []
      | Some gs \<Rightarrow> concat (map (aws_group_contribution accountName (aws_period query row)) gs))"

definition aws_contributions :: "cost_query \<Rightarrow> string \<Rightarrow> aws_row list \<Rightarrow> contribution list" where
  "aws_contributions query accountName rows =
     concat (map (aws_row_contributions query accountName) rows)"





text \<open>
  The value of a bucket after contributions that overwrite: the last one for the bucket,
  or the initial value when there is none.
\<close>

definition last_value :: "number option \<Rightarrow> contribution list \<Rightarrow> string \<times> string \<Rightarrow> number option" where
  "last_value init cs kp = (case map_of (rev cs) kp of None \<Rightarrow> init | Some v \<Rightarrow> Some v)"

text \<open>
  The value of a bucket after contributions that add up, each as
  \<^verbatim>\<open>(bucket || 0) + amount\<close>.
\<close>

definition summed_value :: "number option \<Rightarrow> contribution list \<Rightarrow> string \<times> string \<Rightarrow> number option" where
  "summed_value init cs kp =
     foldl (\<lambda>bucket c. if fst c = kp then Some (add_number (or_zero bucket) (snd c)) else bucket)
       init cs"

section \<open>Properties of the service-name conversion\<close>

lemma startsWith_append [simp]: "startsWith (p @ rest) p"
  by (simp add: startsWith_def)

lemma startsWith_Cons_Cons [simp]:
  "startsWith (c # cs) (d # ds) = (c = d \<and> startsWith cs ds)"
  by (auto simp: startsWith_def)

lemma startsWith_Nil [simp]: "startsWith s []"
  by (simp add: startsWith_def)

lemma startsWith_Nil_left [simp]: "startsWith [] p = (p = [])"
  by (auto simp: startsWith_def)

lemma aws_aliases_nonempty: "map_of aws_aliases x = Some a \<Longrightarrow> a \<noteq> []"
  by (auto simp: aws_aliases_def split: if_splits)

lemma strip_prefixes_Amazon:
  "strip_prefixes aws_prefixes (''Amazon'' @ rest) = trim rest"
  by (simp add: strip_prefixes_def aws_prefixes_def slice_from_def)

lemma strip_prefixes_AWS:
  "strip_prefixes aws_prefixes (''AWS'' @ rest) = trim rest"
  by (simp add: strip_prefixes_def aws_prefixes_def slice_from_def)

lemma strip_prefixes_none:
  "list_all (\<lambda>p. \<not> startsWith s p) ps \<Longrightarrow> strip_prefixes ps s = s"
  unfolding strip_prefixes_def by (induction ps) auto

text \<open>
  Claim C7. A raw service name that starts with a configured prefix and whose trimmed
  remainder is in the alias table is converted to the provider tag, a slash and the
  alias (AWS: "Amazon Simple Storage Service" becomes "AWS/S3 (Simple Storage Service)");
  when the remainder has no alias, and for Azure and MongoAtlas, which have no alias
  table, the trimmed remainder itself follows the provider tag and the slash; a name
  that starts with no prefix and has no alias is kept as it is behind the tag.
\<close>

theorem convertServiceName_alias:
  "(p \<in> set aws_prefixes \<longrightarrow> map_of aws_aliases (trim rest) = Some a \<longrightarrow>
      aws_convertServiceName prov (p @ rest) = prov @ ''/'' @ a)
   \<and> (p \<in> set aws_prefixes \<longrightarrow> map_of aws_aliases (trim rest) = None \<longrightarrow>
      aws_convertServiceName prov (p @ rest) = prov @ ''/'' @ trim rest)
   \<and> (list_all (\<lambda>p. \<not> startsWith s p) aws_prefixes \<longrightarrow> map_of aws_aliases s = None \<longrightarrow>
      aws_convertServiceName prov s = prov @ ''/'' @ s)
   \<and> azure_convertServiceName prov (''Azure'' @ rest) = prov @ ''/'' @ trim rest
   \<and> (\<not> startsWith s ''Azure'' \<longrightarrow> azure_convertServiceName prov s = prov @ ''/'' @ s)
   \<and> mongo_convertServiceName prov (''Atlas'' @ rest) = prov @ ''/'' @ trim rest
   \<and> (\<not> startsWith s ''Atlas'' \<longrightarrow> mongo_convertServiceName prov s = prov @ ''/'' @ s)
   \<and> aws_convertServiceName ''AWS'' ''Amazon Simple Storage Service''
       = ''AWS/S3 (Simple Storage Service)''"
proof -
  have strip: "strip_prefixes aws_prefixes (p @ rest) = trim rest" if "p \<in> set aws_prefixes"
    using that strip_prefixes_Amazon [of rest] strip_prefixes_AWS [of rest]
    by (auto simp: aws_prefixes_def)
  have a1: "aws_convertServiceName prov (p @ rest) = prov @ ''/'' @ a"
    if "p \<in> set aws_prefixes" "map_of aws_aliases (trim rest) = Some a"
    using that strip aws_aliases_nonempty [of "trim rest" a]
    by (simp add: aws_convertServiceName_def)
  have a2: "aws_convertServiceName prov (p @ rest) = prov @ ''/'' @ trim rest"
    if "p \<in> set aws_prefixes" "map_of aws_aliases (trim rest) = None"
    using that strip by (simp add: aws_convertServiceName_def)
  have a3: "aws_convertServiceName prov s = prov @ ''/'' @ s"
    if "list_all (\<lambda>p. \<not> startsWith s p) aws_prefixes" "map_of aws_aliases s = None"
    using that strip_prefixes_none [of s aws_prefixes]
    by (simp add: aws_convertServiceName_def)
  have z1: "azure_convertServiceName prov (''Azure'' @ rest) = prov @ ''/'' @ trim rest"
    by (simp add: azure_convertServiceName_def strip_prefixes_def slice_from_def)
  have z2: "azure_convertServiceName prov s = prov @ ''/'' @ s" if "\<not> startsWith s ''Azure''"
    using that by (simp add: azure_convertServiceName_def strip_prefixes_def)
  have m1: "mongo_convertServiceName prov (''Atlas'' @ rest) = prov @ ''/'' @ trim rest"
    by (simp add: mongo_convertServiceName_def strip_prefixes_def slice_from_def)
  have m2: "mongo_convertServiceName prov s = prov @ ''/'' @ s" if "\<not> startsWith s ''Atlas''"
    using that by (simp add: mongo_convertServiceName_def strip_prefixes_def)
  have ex: "aws_convertServiceName ''AWS'' ''Amazon Simple Storage Service''
       = ''AWS/S3 (Simple Storage Service)''"
    by (simp add: aws_convertServiceName_def strip_prefixes_def aws_prefixes_def
        slice_from_def trim_def is_white_space_def aws_aliases_def)
  from a1 a2 a3 z1 z2 m1 m2 ex show ?thesis by blast
qed

theorem convertServiceName_alias_witness:
  "''Amazon'' \<in> set aws_prefixes
   \<and> map_of aws_aliases (trim '' Relational Database Service'')
       = Some ''RDS (Relational Database Service)''
   \<and> aws_convertServiceName ''AWS'' (''Amazon'' @ '' Relational Database Service'')
       = ''AWS'' @ ''/'' @ ''RDS (Relational Database Service)''
   \<and> list_all (\<lambda>p. \<not> startsWith ''Lambda'' p) aws_prefixes
   \<and> map_of aws_aliases ''Lambda'' = None
   \<and> aws_convertServiceName ''AWS'' ''Lambda'' = ''AWS'' @ ''/'' @ ''Lambda''
   \<and> \<not> startsWith ''Lambda'' ''Azure''
   \<and> azure_convertServiceName ''AWS'' ''Lambda'' = ''AWS'' @ ''/'' @ ''Lambda''
   \<and> \<not> startsWith ''Lambda'' ''Atlas''
   \<and> mongo_convertServiceName ''AWS'' ''Lambda'' = ''AWS'' @ ''/'' @ ''Lambda''"
proof -
  have h1: "''Amazon'' \<in> set aws_prefixes"
    by (simp add: aws_prefixes_def)
  have h2: "map_of aws_aliases (trim '' Relational Database Service'')
       = Some ''RDS (Relational Database Service)''"
    by (simp add: aws_aliases_def trim_def is_white_space_def)
  have h3: "list_all (\<lambda>p. \<not> startsWith ''Lambda'' p) aws_prefixes"
    by (simp add: aws_prefixes_def)
  have h4: "map_of aws_aliases ''Lambda'' = None"
    by (simp add: aws_aliases_def)
  have h5: "\<not> startsWith ''Lambda'' ''Azure''" "\<not> startsWith ''Lambda'' ''Atlas''"
    by simp_all
  from h1 h2 h3 h4 h5
    convertServiceName_alias [of "''Amazon''" "'' Relational Database Service''"
      "''RDS (Relational Database Service)''" "''AWS''" "''Lambda''"]
  show ?thesis by blast
qed

section \<open>Evaluation rules\<close>

lemmas str_ev = is_white_space_def trimStart_def trim_def slice_from_def substring0_def slice_def
  toUpperCase_def template_str_def
lemmas num_ev = add_number_def or_zero_def is_digit_def digits_val_def scale10_def parse_exponent_def
  parseFloat_def parseInt10_def digits_of_nat.simps int_toString_def
lemma format_YYYY_MM_eval:
  "format_YYYY_MM (y, m, d) = pad_digits 4 y @ ''-'' @ pad_digits 2 m"
  by (simp add: format_YYYY_MM_def)

lemma format_YYYY_MM_DD_eval:
  "format_YYYY_MM_DD (y, m, d) = pad_digits 4 y @ ''-'' @ pad_digits 2 m @ ''-'' @ pad_digits 2 d"
  by (simp add: format_YYYY_MM_DD_def)

lemmas date_ev = is_leap_def days_in_month_def valid_ymd_def days_from_civil_def local_ms_def digits_n_def
  parse_iso_date_def parse_iso_time_def moment_iso_def moment_ms_def isBefore_def parse_mdy_strict_def
  pad_digits_def format_YYYY_MM_eval format_YYYY_MM_DD_eval
lemmas obj_ev = object_literal_def new_report_def write_bucket_def read_bucket_def tag_step_def static_tags_def
  create_if_absent_def Let_def
lemmas azure_ev = formatDate_def azure_date_value_def moment_of_def property_key_def parseFloat_cost_def
  azure_keyName_def azure_row_step_def azure_accumulate_def azure_transformCostsData_def
  azure_convertServiceName_def strip_prefixes_def
lemmas aws_ev = aws_period_def aws_serviceName_def aws_keyName_def aws_group_step_def aws_row_step_def
  aws_accumulate_def aws_transformCostsData_def aws_convertServiceName_def strip_prefixes_def
  aws_prefixes_def aws_aliases_def
lemmas mongo_ev = row_data_def or_Unknown_def mongo_parsedDate_def mongo_billingPeriod_def
  mongo_keyName_def mongo_amount_def mongo_row_step_def mongo_accumulate_def
  mongo_transformCostsData_def mongo_convertServiceName_def strip_prefixes_def

section \<open>Tag filters\<close>

text \<open>
  Claim C4. For a parsed tag list of length at least 2, fetchCosts builds an OR with
  one equality clause per tag, in the order of the tags; the AWS fetch step puts it,
  and likewise the single clause of a one-tag list, into an AND behind the base filter
  RECORD_TYPE = Usage. An empty tag list leaves the AWS base filter alone and gives
  Azure no filter.
\<close>

theorem tag_filter_disjunction:
  "(2 \<le> length parsedTags \<longrightarrow>
      aws_filterExpression parsedTags
        = And [Dimensions ''RECORD_TYPE'' [''Usage''],
               Or (map (\<lambda>t. Tags (tag_key t) [tag_value t]) parsedTags)]
      \<and> azure_filter parsedTags
        = Some (Filter_or (map (\<lambda>t. Filter_tags (tag_key t) ''In'' [tag_value t]) parsedTags)))
   \<and> aws_filterExpression [t] = And [Dimensions ''RECORD_TYPE'' [''Usage''], Tags (tag_key t) [tag_value t]]
   \<and> aws_filterExpression [] = Dimensions ''RECORD_TYPE'' [''Usage'']
   \<and> azure_filter [] = None"
proof -
  have "aws_filterExpression parsedTags
        = And [Dimensions ''RECORD_TYPE'' [''Usage''],
               Or (map (\<lambda>t. Tags (tag_key t) [tag_value t]) parsedTags)]
      \<and> azure_filter parsedTags
        = Some (Filter_or (map (\<lambda>t. Filter_tags (tag_key t) ''In'' [tag_value t]) parsedTags))"
    if "2 \<le> length parsedTags"
  proof -
    from that obtain a b rest where "parsedTags = a # b # rest"
      by (cases parsedTags; cases "tl parsedTags") auto
    then show ?thesis
      by (simp add: aws_filterExpression_def azure_filter_def)
  qed
  then show ?thesis
    by (simp add: aws_filterExpression_def azure_filter_def)
qed

theorem tag_filter_disjunction_witness:
  "2 \<le> length [\<lparr>tag_key = ''team'', tag_value = Some ''core''\<rparr>, \<lparr>tag_key = ''env'', tag_value = Some ''prod''\<rparr>]
   \<and> aws_filterExpression [\<lparr>tag_key = ''team'', tag_value = Some ''core''\<rparr>, \<lparr>tag_key = ''env'', tag_value = Some ''prod''\<rparr>]
       = And [Dimensions ''RECORD_TYPE'' [''Usage''],
              Or [Tags ''team'' [Some ''core''], Tags ''env'' [Some ''prod'']]]
   \<and> azure_filter [\<lparr>tag_key = ''team'', tag_value = Some ''core''\<rparr>, \<lparr>tag_key = ''env'', tag_value = Some ''prod''\<rparr>]
       = Some (Filter_or [Filter_tags ''team'' ''In'' [Some ''core''], Filter_tags ''env'' ''In'' [Some ''prod'']])"
  using tag_filter_disjunction
    [of "[\<lparr>tag_key = ''team'', tag_value = Some ''core''\<rparr>, \<lparr>tag_key = ''env'', tag_value = Some ''prod''\<rparr>]"]
  by simp

section \<open>The Azure retry loop\<close>

lemma retry_loop_429:
  "(\<And>i. i < k \<Longrightarrow> status (send (n + i)) = 429) \<Longrightarrow> n + k \<le> maxRetries \<Longrightarrow>
   retry_loop send json_parse maxRetries n sleeps
     = retry_loop send json_parse maxRetries (n + k) (sleeps @ sleeps_of send n k)"
proof (induction k arbitrary: n sleeps)
  case 0
  then show ?case by (simp add: sleeps_of_def)
next
  case (Suc k)
  have s0: "status (send n) = 429" using Suc.prems(1) [of 0] by simp
  have lt: "n < maxRetries" using Suc.prems(2) by simp
  have step: "retry_loop send json_parse maxRetries n sleeps
      = retry_loop send json_parse maxRetries (Suc n)
          (sleeps @ [map_option (\<lambda>s. s * 1000) (retryAfter (send n))])"
    using s0 lt by (subst retry_loop.simps) (simp add: Let_def)
  have ih: "retry_loop send json_parse maxRetries (Suc n)
          (sleeps @ [map_option (\<lambda>s. s * 1000) (retryAfter (send n))])
      = retry_loop send json_parse maxRetries (Suc n + k)
          ((sleeps @ [map_option (\<lambda>s. s * 1000) (retryAfter (send n))]) @ sleeps_of send (Suc n) k)"
  proof (rule Suc.IH)
    fix i assume "i < k"
    then show "status (send (Suc n + i)) = 429" using Suc.prems(1) [of "Suc i"] by simp
  next
    show "Suc n + k \<le> maxRetries" using Suc.prems(2) by simp
  qed
  have sl: "sleeps_of send n (Suc k)
      = map_option (\<lambda>s. s * 1000) (retryAfter (send n)) # sleeps_of send (Suc n) k"
  proof -
    have "[n..<n + Suc k] = n # [Suc n..<Suc n + k]"
      by (simp add: upt_conv_Cons del: upt_Suc)
    then show ?thesis by (simp add: sleeps_of_def del: upt_Suc)
  qed
  show ?case using step ih sl by simp
qed

text \<open>
  Claim C2. When the first \<open>k < 5\<close> responses are 429 and the next one is 200, the call
  returns the parsed body of that response after exactly \<open>k\<close> sleeps; when the next one
  is neither 200 nor 429, it fails at once with that response's body as the message;
  when the first five responses are all 429, it fails with "Max retries exceeded" after
  five attempts. Each sleep lasts the seconds of the rate-limit header, 60 when the
  header is absent.
\<close>

theorem fetchDataWithRetry_outcomes:
  "(k < 5 \<and> (\<forall>i<k. status (send i) = 429) \<and> status (send k) = 200 \<longrightarrow>
      fetchDataWithRetry send json_parse
        = ((case json_parse (or_string (bodyAsText (send k)) ''{}'') of
              None \<Rightarrow> Inl SyntaxError | Some j \<Rightarrow> Inr j),
           sleeps_of send 0 k))
   \<and> (k < 5 \<and> (\<forall>i<k. status (send i) = 429) \<and> status (send k) \<noteq> 200 \<and> status (send k) \<noteq> 429 \<longrightarrow>
      fetchDataWithRetry send json_parse = (Inl (Error (bodyAsText (send k))), sleeps_of send 0 k))
   \<and> ((\<forall>i<5. status (send i) = 429) \<longrightarrow>
      fetchDataWithRetry send json_parse
        = (Inl (Error (Some ''Max retries exceeded'')), sleeps_of send 0 5))
   \<and> length (sleeps_of send 0 k) = k
   \<and> (retry_after_header r = None \<longrightarrow> retryAfter r = Some 60)
   \<and> (retry_after_header r = Some ds \<and> ds \<noteq> [] \<and> list_all is_digit ds \<longrightarrow>
      retryAfter r = Some (int (digits_val ds)))"
proof -
  have pre: "fetchDataWithRetry send json_parse = retry_loop send json_parse 5 k (sleeps_of send 0 k)"
    if "k \<le> 5" "\<forall>i<k. status (send i) = 429" for k
    unfolding fetchDataWithRetry_def
    using retry_loop_429 [of k send 0 5 json_parse "[]"] that by simp
  have c1: "fetchDataWithRetry send json_parse
        = ((case json_parse (or_string (bodyAsText (send k)) ''{}'') of
              None \<Rightarrow> Inl SyntaxError | Some j \<Rightarrow> Inr j),
           sleeps_of send 0 k)"
    if "k < 5" "\<forall>i<k. status (send i) = 429" "status (send k) = 200"
  proof -
    have "fetchDataWithRetry send json_parse = retry_loop send json_parse 5 k (sleeps_of send 0 k)"
      using pre [of k] that by simp
    also have "\<dots> = ((case json_parse (or_string (bodyAsText (send k)) ''{}'') of
              None \<Rightarrow> Inl SyntaxError | Some j \<Rightarrow> Inr j), sleeps_of send 0 k)"
      using that by (subst retry_loop.simps) (simp add: Let_def)
    finally show ?thesis .
  qed
  have c2: "fetchDataWithRetry send json_parse = (Inl (Error (bodyAsText (send k))), sleeps_of send 0 k)"
    if "k < 5" "\<forall>i<k. status (send i) = 429" "status (send k) \<noteq> 200" "status (send k) \<noteq> 429"
  proof -
    have "fetchDataWithRetry send json_parse = retry_loop send json_parse 5 k (sleeps_of send 0 k)"
      using pre [of k] that by simp
    also have "\<dots> = (Inl (Error (bodyAsText (send k))), sleeps_of send 0 k)"
      using that by (subst retry_loop.simps) (simp add: Let_def)
    finally show ?thesis .
  qed
  have c3: "fetchDataWithRetry send json_parse
        = (Inl (Error (Some ''Max retries exceeded'')), sleeps_of send 0 5)"
    if "\<forall>i<5. status (send i) = 429"
  proof -
    have "fetchDataWithRetry send json_parse = retry_loop send json_parse 5 5 (sleeps_of send 0 5)"
      using pre [of 5] that by simp
    also have "\<dots> = (Inl (Error (Some ''Max retries exceeded'')), sleeps_of send 0 5)"
      by (subst retry_loop.simps) simp
    finally show ?thesis .
  qed
  have c4: "length (sleeps_of send 0 k) = k"
    by (simp add: sleeps_of_def)
  have c5: "retryAfter r = Some 60" if "retry_after_header r = None"
    using that
    by (simp add: retryAfter_def or_string_def parseInt10_def trimStart_def is_white_space_def
        is_digit_def digits_val_def)
  have c6: "retryAfter r = Some (int (digits_val ds))"
    if "retry_after_header r = Some ds" "ds \<noteq> []" "list_all is_digit ds"
  proof -
    from that(2) obtain c cs where ds: "ds = c # cs" by (cases ds) auto
    with that(3) have dc: "is_digit c" by simp
    then have nws: "\<not> is_white_space c" "c \<noteq> CHR ''-''" "c \<noteq> CHR ''+''"
      by (auto simp: is_digit_def is_white_space_def)
    have tw: "takeWhile is_digit ds = ds"
      using that(3) by (simp add: list_all_iff)
    show ?thesis
      using that(1) ds nws tw
      by (simp add: retryAfter_def or_string_def parseInt10_def trimStart_def)
  qed
  from c1 c2 c3 c4 c5 c6 show ?thesis by blast
qed

theorem fetchDataWithRetry_outcomes_witness:
  "3 < (5::nat) \<and> status (three_429_then_200 0) = 429 \<and> status (three_429_then_200 1) = 429
   \<and> status (three_429_then_200 2) = 429 \<and> status (three_429_then_200 3) = 200
   \<and> fetchDataWithRetry three_429_then_200 Some
       = (Inr ''{\"properties\":{}}'', [Some 60000, Some 7000, Some 60000])"
proof -
  have h: "\<forall>i<3. status (three_429_then_200 i) = 429" "status (three_429_then_200 3) = 200"
    by (simp_all add: three_429_then_200_def)
  have s: "sleeps_of three_429_then_200 0 3 = [Some 60000, Some 7000, Some 60000]"
    by (simp add: sleeps_of_def upt_rec three_429_then_200_def retryAfter_def or_string_def
        parseInt10_def trimStart_def is_white_space_def is_digit_def digits_val_def)
  have b: "or_string (bodyAsText (three_429_then_200 3)) ''{}'' = ''{\"properties\":{}}''"
    by (simp add: three_429_then_200_def or_string_def)
  from h s b fetchDataWithRetry_outcomes [of 3 three_429_then_200 Some]
  show ?thesis by simp
qed

section \<open>Static tags without a separator\<close>

lemma split_no_separator: "sep \<notin> set s \<Longrightarrow> split sep s = [s]"
  by (induction s) auto

lemma tag_step_no_colon: "CHR '':'' \<notin> set t \<Longrightarrow> tag_step acc t = Inl TypeError"
  by (simp add: tag_step_def split_no_separator)

lemma tag_step_error: "tag_step acc t = Inl e \<Longrightarrow> e = TypeError"
  by (auto simp: tag_step_def split: list.splits)

lemma fold_tag_step_no_colon:
  "list_ex (\<lambda>t. CHR '':'' \<notin> set t) ts \<Longrightarrow> fold_err tag_step ts acc = Inl TypeError"
proof (induction ts arbitrary: acc)
  case Nil
  then show ?case by simp
next
  case (Cons t ts)
  show ?case
  proof (cases "tag_step acc t")
    case (Inl e)
    then show ?thesis using tag_step_error [of acc t e] by simp
  next
    case (Inr acc')
    then have "CHR '':'' \<in> set t" using tag_step_no_colon [of t acc] by auto
    with Cons.prems have "list_ex (\<lambda>t. CHR '':'' \<notin> set t) ts" by simp
    then show ?thesis using Cons.IH [of acc'] Inr by simp
  qed
qed

lemma static_tags_no_colon:
  "list_ex (\<lambda>t. CHR '':'' \<notin> set t) ts \<Longrightarrow> static_tags (Some ts) = Inl TypeError"
  by (simp add: static_tags_def fold_tag_step_no_colon)

text \<open>
  Claim C10. When the configured static tags contain a string without a colon, each of
  the three transformCostsData methods raises a TypeError while it reads the tags,
  before any row is looked at: the call produces no Report. So a call with a static tags
  array succeeds only when every tag holds a colon.
\<close>

theorem static_tag_without_colon_aborts:
  "tags config = Some ts \<Longrightarrow> list_ex (\<lambda>t. CHR '':'' \<notin> set t) ts \<Longrightarrow>
     aws_transformCostsData provider category_of config query aws_rows = Inl TypeError
   \<and> azure_transformCostsData provider category_of tz config query azure_rows = Inl TypeError
   \<and> mongo_transformCostsData provider category_of tz config query csv = Inl TypeError"
  using static_tags_no_colon [of ts]
  by (simp add: aws_transformCostsData_def aws_accumulate_def azure_transformCostsData_def
      azure_accumulate_def mongo_transformCostsData_def mongo_accumulate_def)

theorem static_tag_without_colon_aborts_witness:
  "tags \<lparr>name = ''prod'', tags = Some [''team:core'', ''production'']\<rparr>
     = Some [''team:core'', ''production'']
   \<and> list_ex (\<lambda>t. CHR '':'' \<notin> set t) [''team:core'', ''production'']
   \<and> aws_transformCostsData ''AWS'' (\<lambda>s. ''Uncategorized'')
        \<lparr>name = ''prod'', tags = Some [''team:core'', ''production'']\<rparr>
        \<lparr>startTime = ''1711929600000'', endTime = ''1714521600000'', granularity = ''monthly''\<rparr>
        [] = Inl TypeError"
proof -
  have h1: "tags \<lparr>name = ''prod'', tags = Some [''team:core'', ''production'']\<rparr>
     = Some [''team:core'', ''production'']" by simp
  have h2: "list_ex (\<lambda>t. CHR '':'' \<notin> set t) [''team:core'', ''production'']" by simp
  from h1 h2 static_tag_without_colon_aborts [OF h1 h2] show ?thesis by simp
qed

section \<open>The MongoAtlas invoice filter at a row that mentions Credit outside the SKU\<close>

text \<open>
  Claim C5. The claim says that exactly the rows whose SKU is Credit are dropped and
  that a row with Credit in another field is kept. On the invoice below the row of
  project CreditApp with SKU "Atlas Data Transfer" is dropped as well: the filter tests
  whether the whole line contains Credit. (The lines up to the header, the empty line
  and the row with SKU Credit are dropped as the claim says.)
\<close>

theorem fetchCostsFromCloud_drops_credit_substring:
  "fetchCostsFromCloud 200 ''OK''
     [\<lparr>http_status = 200, statusText = ''OK'', body = invoice_with_credit_project\<rparr>]
   = Inr ''org1,Main,Atlas Instance,10''"
  by (simp add: fetchCostsFromCloud_def invoice_csv_def filteredLines_def
      invoice_with_credit_project_def trim_def is_white_space_def)

section \<open>The Azure transform at a seven-digit usage date\<close>

text \<open>
  Claim C6. formatDate turns 20240407 into "2024-04-07" and answers null for 2024047.
  The claim says that such a row is skipped; the daily transform does not test for null:
  the invalid moment is not before the start time, and the cost is written into the
  Report under the bucket "null".
\<close>

theorem azure_daily_seven_digit_date_recorded:
  "formatDate (UsageDate 20240407) = Some ''2024-04-07''
   \<and> formatDate (UsageDate 2024047) = None
   \<and> azure_transformCostsData ''Azure'' (\<lambda>s. ''Uncategorized'') 0 \<lparr>name = ''prod'', tags = None\<rparr>
        \<lparr>startTime = ''1711929600000'', endTime = ''1714521600000'', granularity = ''daily''\<rparr>
        [\<lparr>cost = CostNumber (Fin 12), date = UsageDate 2024047, serviceName = ''Azure App Service''\<rparr>]
      = Inr [[(''id'', Str ''prod->Azure App Service''), (''name'', Str ''Azure/prod''),
              (''service'', Str ''Azure/App Service''), (''category'', Str ''Uncategorized''),
              (''provider'', Str ''Azure''), (''reports'', Reports [(''null'', Fin 12)])]]"
  by (simp add: str_ev num_ev date_ev obj_ev azure_ev)

section \<open>The AWS transform at an amount that is not a number\<close>

text \<open>
  Claim C9. The claim says that a cost field that does not parse is recorded as zero.
  The AWS transform writes the result of parseFloat as it is: the amount "N/A" puts NaN
  into the bucket (the batch is not aborted).
\<close>

theorem aws_malformed_amount_recorded_as_NaN:
  "aws_transformCostsData ''AWS'' (\<lambda>s. ''Uncategorized'') \<lparr>name = ''prod'', tags = None\<rparr>
     \<lparr>startTime = ''1711929600000'', endTime = ''1714521600000'', granularity = ''monthly''\<rparr>
     [\<lparr>TimePeriod_Start = Some ''2024-04-01'',
       Groups = Some [\<lparr>Keys = Some [''Amazon Simple Storage Service''],
                       Metrics = Some [(''UnblendedCost'', Some ''N/A'')]\<rparr>]\<rparr>]
   = Inr [[(''id'', Str ''prod_Amazon Simple Storage Service''), (''name'', Str ''AWS/prod''),
           (''service'', Str ''AWS/S3 (Simple Storage Service)''), (''category'', Str ''Uncategorized''),
           (''provider'', Str ''AWS''), (''reports'', Reports [(''2024-04'', NaN)])]]"
  by (simp add: str_ev num_ev obj_ev aws_ev)

section \<open>The accumulator\<close>


lemma map_of_foldl_update:
  "map_of (foldl (\<lambda>obj kv. AList.update (fst kv) (snd kv) obj) init props)
     = map_of init ++ map_of (rev props)"
proof (induction props arbitrary: init)
  case Nil
  then show ?case by simp
next
  case (Cons p ps)
  have "map_of (AList.update (fst p) (snd p) init) ++ map_of (rev ps)
        = map_of init ++ (map_of (rev ps @ [p]))"
    by (cases p) (simp add: update_conv' map_add_def fun_eq_iff split: option.splits)
  with Cons.IH [of "AList.update (fst p) (snd p) init"] show ?case by simp
qed

lemma map_of_object_literal: "map_of (object_literal props) = map_of (rev props)"
  by (simp add: object_literal_def map_of_foldl_update)

lemma map_of_rev_Str_None:
  "map_of kvs f = None \<Longrightarrow> map_of (rev (map (\<lambda>kv. (fst kv, Str (snd kv))) kvs)) f = None"
  by (simp add: map_of_eq_None_iff image_image)

lemma map_of_rev_Str_Some:
  "map_of (rev (map (\<lambda>kv. (fst kv, Str (snd kv))) kvs)) f = Some v \<Longrightarrow> \<exists>s. v = Str s"
  by (auto dest!: map_of_SomeD)

lemma new_report_id:
  "map_of extras ''id'' = None \<Longrightarrow> map_of tagKeyValues ''id'' = None \<Longrightarrow>
   map_of (new_report keyName nm service category provider extras tagKeyValues) ''id''
     = Some (Str keyName)"
  by (simp add: new_report_def map_of_object_literal map_add_def map_of_rev_Str_None)

lemma new_report_reports:
  "(\<exists>s. map_of (new_report keyName nm service category provider extras tagKeyValues) ''reports''
          = Some (Str s))
   \<or> map_of (new_report keyName nm service category provider extras tagKeyValues) ''reports''
          = Some (Reports [])"
  by (auto simp: new_report_def map_of_object_literal map_add_def split: option.splits
      dest: map_of_rev_Str_Some)

lemma new_report_reports_plain:
  "map_of extras ''reports'' = None \<Longrightarrow> map_of tagKeyValues ''reports'' = None \<Longrightarrow>
   map_of (new_report keyName nm service category provider extras tagKeyValues) ''reports''
     = Some (Reports [])"
  by (simp add: new_report_def map_of_object_literal map_add_def map_of_rev_Str_None)

lemma read_bucket_fresh:
  "map_of acc k = None \<Longrightarrow>
   read_bucket (acc @ [(k, new_report k nm service category provider extras tagKeyValues)]) k' p
     = read_bucket acc k' p"
  using new_report_reports [of k nm service category provider extras tagKeyValues]
  by (auto simp: read_bucket_def map_add_def split: option.splits field.splits)

lemma write_bucket_Inr:
  "write_bucket acc k p v = Inr acc' \<Longrightarrow>
   \<exists>r b. map_of acc k = Some r \<and> map_of r ''reports'' = Some (Reports b)
     \<and> acc' = AList.update k (AList.update ''reports'' (Reports (AList.update p v b)) r) acc"
  by (auto simp: write_bucket_def split: option.splits field.splits)

lemma write_bucket_keys:
  assumes "write_bucket acc k p v = Inr acc'"
  shows "map fst acc' = map fst acc"
proof -
  from write_bucket_Inr [OF assms] obtain r b where
    r: "map_of acc k = Some r" and
    acc': "acc' = AList.update k (AList.update ''reports'' (Reports (AList.update p v b)) r) acc"
    by blast
  from r have "k \<in> set (map fst acc)"
    by (auto dest: map_of_SomeD intro: rev_image_eqI)
  with acc' show ?thesis by (simp add: update_keys)
qed

lemma write_bucket_read:
  assumes "write_bucket acc k p v = Inr acc'"
  shows "read_bucket acc' k' p' = (if k' = k \<and> p' = p then Some v else read_bucket acc k' p')"
proof -
  from write_bucket_Inr [OF assms] obtain r b where
    r: "map_of acc k = Some r" and b: "map_of r ''reports'' = Some (Reports b)" and
    acc': "acc' = AList.update k (AList.update ''reports'' (Reports (AList.update p v b)) r) acc"
    by blast
  show ?thesis
  proof (cases "k' = k")
    case True
    with r b acc' show ?thesis
      by (simp add: read_bucket_def update_conv')
  next
    case False
    with acc' show ?thesis
      by (simp add: read_bucket_def update_conv')
  qed
qed

lemma write_bucket_other_fields:
  assumes "write_bucket acc k p v = Inr acc'" "f \<noteq> ''reports''" "map_of acc' k' = Some r'"
  shows "\<exists>r. map_of acc k' = Some r \<and> map_of r' f = map_of r f"
proof -
  from write_bucket_Inr [OF assms(1)] obtain r b where
    r: "map_of acc k = Some r" and
    acc': "acc' = AList.update k (AList.update ''reports'' (Reports (AList.update p v b)) r) acc"
    by blast
  show ?thesis
  proof (cases "k' = k")
    case True
    with r acc' assms(2,3) show ?thesis
      by (auto simp: update_conv')
  next
    case False
    with acc' assms(3) show ?thesis
      by (simp add: update_conv')
  qed
qed

lemma write_bucket_succeeds:
  "map_of acc k = Some r \<Longrightarrow> map_of r ''reports'' = Some (Reports b) \<Longrightarrow>
   \<exists>acc'. write_bucket acc k p v = Inr acc'"
  by (simp add: write_bucket_def)

section \<open>One Report per key name\<close>

lemma ids_match_Nil: "ids_match []"
  by (simp add: ids_match_def)

lemma ids_match_append:
  assumes "ids_match acc" "map_of acc k = None" "map_of r ''id'' = Some (Str k)"
  shows "ids_match (acc @ [(k, r)])"
proof -
  from assms(2) have "k \<notin> fst ` set acc" by (simp add: map_of_eq_None_iff)
  with assms(1,3) show ?thesis
    by (auto simp: ids_match_def map_add_def split: option.splits)
qed

lemma ids_match_write:
  assumes "write_bucket acc k p v = Inr acc'" "ids_match acc"
  shows "ids_match acc'"
proof -
  have keys: "map fst acc' = map fst acc" by (rule write_bucket_keys [OF assms(1)])
  have "map_of r' ''id'' = Some (Str k')" if "map_of acc' k' = Some r'" for k' r'
  proof -
    from write_bucket_other_fields [OF assms(1) _ that, of "''id''"]
    obtain r where "map_of acc k' = Some r" "map_of r' ''id'' = map_of r ''id''" by auto
    with assms(2) show ?thesis by (simp add: ids_match_def)
  qed
  with keys assms(2) show ?thesis by (simp add: ids_match_def)
qed

lemma fold_err_ids:
  assumes "\<And>a x a'. f a x = Inr a' \<Longrightarrow> ids_match a \<Longrightarrow>
             ids_match a' \<and> set (map fst a') = set (map fst a) \<union> set (ks x)"
  shows "fold_err f xs a = Inr b \<Longrightarrow> ids_match a \<Longrightarrow>
           ids_match b \<and> set (map fst b) = set (map fst a) \<union> set (concat (map ks xs))"
proof (induction xs arbitrary: a)
  case Nil
  then show ?case by simp
next
  case (Cons x xs)
  from Cons.prems(1) obtain a' where a': "f a x = Inr a'" and rest: "fold_err f xs a' = Inr b"
    by (auto split: sum.splits)
  from assms [OF a' Cons.prems(2)] have i: "ids_match a'"
    and k: "set (map fst a') = set (map fst a) \<union> set (ks x)" by simp_all
  from Cons.IH [OF rest i] k show ?case by auto
qed

lemma map_of_None_keys: "map_of acc k = None \<Longrightarrow> set (map fst (acc @ [(k, r)])) = set (map fst acc) \<union> {k}"
  by auto

lemma map_of_Some_keys: "map_of acc k = Some r \<Longrightarrow> set (map fst acc) \<union> {k} = set (map fst acc)"
  by (auto dest: map_of_SomeD intro: rev_image_eqI)

lemma aws_group_step_ids:
  assumes "map_of tkv ''id'' = None"
    "aws_group_step provider category_of accountName tkv period acc g = Inr acc'"
    "ids_match acc"
  shows "ids_match acc' \<and> set (map fst acc') = set (map fst acc) \<union> set [aws_keyName accountName g]"
proof -
  define k where "k = aws_keyName accountName g"
  obtain acc1 where
    c: "ids_match acc1 \<and> set (map fst acc1) = set (map fst acc) \<union> {k}" and
    w: "acc' = acc1 \<or> (\<exists>p v. write_bucket acc1 k p v = Inr acc')"
  proof (cases "map_of acc k")
    case None
    with assms(2) obtain sn where sn: "aws_serviceName g = Some sn"
      by (auto simp: aws_group_step_def k_def Let_def split: option.splits)
    define acc1 where "acc1 = acc @ [(k, new_report k (provider @ ''/'' @ accountName)
                                (aws_convertServiceName provider sn) (category_of (Some sn))
                                provider [] tkv)]"
    have "ids_match acc1"
      unfolding acc1_def using assms(1,3) None by (intro ids_match_append new_report_id) simp_all
    moreover have "set (map fst acc1) = set (map fst acc) \<union> {k}"
      unfolding acc1_def using None by (rule map_of_None_keys)
    moreover have "acc' = acc1 \<or> (\<exists>p v. write_bucket acc1 k p v = Inr acc')"
      using assms(2) None sn
      by (auto simp: aws_group_step_def k_def [symmetric] acc1_def Let_def split: option.splits)
    ultimately show ?thesis using that by blast
  next
    case (Some r)
    have "acc' = acc \<or> (\<exists>p v. write_bucket acc k p v = Inr acc')"
      using assms(2) Some
      by (auto simp: aws_group_step_def k_def [symmetric] Let_def split: option.splits)
    with assms(3) map_of_Some_keys [OF Some] that show ?thesis by blast
  qed
  from w show ?thesis
  proof
    assume "acc' = acc1"
    with c show ?thesis by (simp add: k_def)
  next
    assume "\<exists>p v. write_bucket acc1 k p v = Inr acc'"
    then obtain p v where wb: "write_bucket acc1 k p v = Inr acc'" by blast
    from ids_match_write [OF wb] write_bucket_keys [OF wb] c show ?thesis by (simp add: k_def)
  qed
qed

lemma aws_row_step_ids:
  assumes "map_of tkv ''id'' = None"
    "aws_row_step provider category_of accountName tkv query acc row = Inr acc'"
    "ids_match acc"
  shows "ids_match acc' \<and> set (map fst acc') = set (map fst acc)
           \<union> set (case Groups row of None \<Rightarrow> [] | Some gs \<Rightarrow> map (aws_keyName accountName) gs)"
proof (cases "Groups row")
  case None
  with assms show ?thesis by (simp add: aws_row_step_def)
next
  case (Some gs)
  with assms(2) have f: "fold_err (aws_group_step provider category_of accountName tkv
                      (aws_period query row)) gs acc = Inr acc'"
    by (simp add: aws_row_step_def)
  have "ids_match acc' \<and> set (map fst acc') = set (map fst acc)
           \<union> set (concat (map (\<lambda>g. [aws_keyName accountName g]) gs))"
    using f assms(3)
    by (rule fold_err_ids [rotated]) (rule aws_group_step_ids [OF assms(1)])
  moreover have "concat (map (\<lambda>g. [aws_keyName accountName g]) gs) = map (aws_keyName accountName) gs"
    by (induction gs) auto
  ultimately show ?thesis using Some by simp
qed

lemma aws_accumulate_ids:
  assumes "static_tags (tags config) = Inr tkv" "map_of tkv ''id'' = None"
    "aws_accumulate provider category_of config query rows = Inr acc"
  shows "ids_match acc \<and> set (map fst acc) = set (aws_keyNames (name config) rows)"
proof -
  from assms(1,3) have f: "fold_err (aws_row_step provider category_of (name config) tkv query) rows []
      = Inr acc"
    by (simp add: aws_accumulate_def)
  have "ids_match acc \<and> set (map fst acc) = set (map fst ([]::accumulator))
      \<union> set (concat (map (\<lambda>row. case Groups row of None \<Rightarrow> []
                         | Some gs \<Rightarrow> map (aws_keyName (name config)) gs) rows))"
    using f ids_match_Nil
    by (rule fold_err_ids [rotated]) (rule aws_row_step_ids [OF assms(2)])
  then show ?thesis by (simp add: aws_keyNames_def)
qed


lemma create_if_absent_ids:
  assumes "ids_match acc" "map_of r ''id'' = Some (Str k)"
  shows "ids_match (create_if_absent acc k r)
         \<and> set (map fst (create_if_absent acc k r)) = set (map fst acc) \<union> {k}"
proof (cases "map_of acc k")
  case None
  with assms ids_match_append [OF assms(1) None assms(2)] map_of_None_keys [OF None, of r]
  show ?thesis by (simp add: create_if_absent_def)
next
  case (Some r0)
  with assms(1) map_of_Some_keys [OF Some] show ?thesis by (simp add: create_if_absent_def)
qed

lemma azure_row_step_ids:
  assumes "map_of tkv ''id'' = None"
    "azure_row_step provider category_of tz accountName tkv query acc row = Inr acc'"
    "ids_match acc"
  shows "ids_match acc' \<and> set (map fst acc') = set (map fst acc) \<union> set [azure_keyName accountName row]"
proof -
  define k where "k = azure_keyName accountName row"
  define acc1 where "acc1 = create_if_absent acc k
                  (new_report k (provider @ ''/'' @ accountName)
                     (azure_convertServiceName provider (serviceName row))
                     (category_of (Some (serviceName row))) provider [] tkv)"
  have c: "ids_match acc1 \<and> set (map fst acc1) = set (map fst acc) \<union> {k}"
    unfolding acc1_def using assms(1,3) by (intro create_if_absent_ids new_report_id) simp_all
  have "acc' = acc1 \<or> (\<exists>p v. write_bucket acc1 k p v = Inr acc')"
    using assms(2) [unfolded azure_row_step_def Let_def, folded k_def, folded acc1_def]
    by (auto split: if_splits date_value.splits)
  then show ?thesis
  proof
    assume "acc' = acc1"
    with c show ?thesis by (simp add: k_def)
  next
    assume "\<exists>p v. write_bucket acc1 k p v = Inr acc'"
    then obtain p v where wb: "write_bucket acc1 k p v = Inr acc'" by blast
    from ids_match_write [OF wb] write_bucket_keys [OF wb] c show ?thesis by (simp add: k_def)
  qed
qed

lemma azure_accumulate_ids:
  assumes "static_tags (tags config) = Inr tkv" "map_of tkv ''id'' = None"
    "azure_accumulate provider category_of tz config query rows = Inr acc"
  shows "ids_match acc \<and> set (map fst acc) = set (azure_keyNames (name config) rows)"
proof -
  from assms(1,3) have f:
    "fold_err (azure_row_step provider category_of tz (name config) tkv query) rows [] = Inr acc"
    by (simp add: azure_accumulate_def)
  have "ids_match acc \<and> set (map fst acc) = set (map fst ([]::accumulator))
      \<union> set (concat (map (\<lambda>row. [azure_keyName (name config) row]) rows))"
    using f ids_match_Nil
    by (rule fold_err_ids [rotated]) (rule azure_row_step_ids [OF assms(2)])
  moreover have "concat (map (\<lambda>row. [azure_keyName (name config) row]) rows)
      = map (azure_keyName (name config)) rows"
    by (induction rows) auto
  ultimately show ?thesis by (simp add: azure_keyNames_def)
qed

lemma mongo_row_step_ids:
  assumes "map_of tkv ''id'' = None"
    "mongo_row_step provider category_of tz accountName tkv query header acc line = Inr acc'"
    "ids_match acc"
  shows "ids_match acc' \<and> set (map fst acc') = set (map fst acc)
           \<union> set (let rowData = row_data header (split CHR '','' line)
                  in case mongo_parsedDate rowData of
                       None \<Rightarrow> []
                     | Some d \<Rightarrow> [mongo_keyName category_of accountName rowData])"
proof (cases "mongo_parsedDate (row_data header (split CHR '','' line))")
  case None
  with assms show ?thesis by (simp add: mongo_row_step_def Let_def)
next
  case (Some d)
  define rowData where "rowData = row_data header (split CHR '','' line)"
  define k where "k = mongo_keyName category_of accountName rowData"
  note step = assms(2) [unfolded mongo_row_step_def Let_def, folded rowData_def, folded k_def]
  note d = Some [folded rowData_def]
  obtain acc1 where
    c: "ids_match acc1 \<and> set (map fst acc1) = set (map fst acc) \<union> {k}" and
    w: "acc' = acc1 \<or> (\<exists>p v. write_bucket acc1 k p v = Inr acc')"
  proof (cases "map_of acc k")
    case None
    with step d obtain sn where sn: "rowData ''SKU'' = Some sn"
      by (auto split: option.splits)
    define acc1 where "acc1 = acc @ [(k, new_report k (provider @ ''/'' @ accountName)
                                        (mongo_convertServiceName provider sn)
                                        (category_of (rowData ''SKU'')) provider
                                        [(''project'', or_Unknown (rowData ''Project'')),
                                         (''cluster'', or_Unknown (rowData ''Cluster''))]
                                        tkv)]"
    have "ids_match acc1"
      unfolding acc1_def using assms(1,3) None by (intro ids_match_append new_report_id) simp_all
    moreover have "set (map fst acc1) = set (map fst acc) \<union> {k}"
      unfolding acc1_def using None by (rule map_of_None_keys)
    moreover have "acc' = acc1 \<or> (\<exists>p v. write_bucket acc1 k p v = Inr acc')"
      using step d None sn
      by (auto simp: acc1_def split: if_splits)
    ultimately show ?thesis using that by blast
  next
    case (Some r)
    have "acc' = acc \<or> (\<exists>p v. write_bucket acc k p v = Inr acc')"
      using step d Some
      by (auto split: if_splits)
    with assms(3) map_of_Some_keys [OF Some] that show ?thesis by blast
  qed
  have res: "ids_match acc' \<and> set (map fst acc') = set (map fst acc) \<union> {k}"
    using w
  proof
    assume "acc' = acc1"
    with c show ?thesis by simp
  next
    assume "\<exists>p v. write_bucket acc1 k p v = Inr acc'"
    then obtain p v where wb: "write_bucket acc1 k p v = Inr acc'" by blast
    from ids_match_write [OF wb] write_bucket_keys [OF wb] c show ?thesis by simp
  qed
  show ?thesis using res d by (simp add: Let_def rowData_def [symmetric] k_def)
qed

lemma mongo_accumulate_ids:
  assumes "static_tags (tags config) = Inr tkv" "map_of tkv ''id'' = None"
    "mongo_accumulate provider category_of tz config query csv = Inr acc"
  shows "ids_match acc \<and> set (map fst acc) = set (mongo_keyNames category_of (name config) csv)"
proof (cases "split CHR 0x0A csv")
  case Nil
  with assms show ?thesis by (simp add: mongo_accumulate_def)
next
  case (Cons line0 rows)
  with assms(1,3) have f:
    "fold_err (mongo_row_step provider category_of tz (name config) tkv query
                 (split CHR '','' line0)) rows [] = Inr acc"
    by (simp add: mongo_accumulate_def)
  have "ids_match acc \<and> set (map fst acc) = set (map fst ([]::accumulator))
      \<union> set (concat (map (\<lambda>line. let rowData = row_data (split CHR '','' line0) (split CHR '','' line)
                  in case mongo_parsedDate rowData of
                       None \<Rightarrow> []
                     | Some d \<Rightarrow> [mongo_keyName category_of (name config) rowData]) rows))"
    using f ids_match_Nil
    by (rule fold_err_ids [rotated]) (rule mongo_row_step_ids [OF assms(2)])
  then show ?thesis using Cons by (simp add: mongo_keyNames_def)
qed

lemma ids_match_output:
  assumes "ids_match acc"
  shows "map report_id (map snd acc) = map (\<lambda>k. Some (Str k)) (map fst acc)"
proof -
  have "report_id (snd kr) = Some (Str (fst kr))" if "kr \<in> set acc" for kr
  proof -
    from assms have "distinct (map fst acc)" by (simp add: ids_match_def)
    with that have "map_of acc (fst kr) = Some (snd kr)" by simp
    with assms show ?thesis by (simp add: ids_match_def report_id_def)
  qed
  then show ?thesis by simp
qed

lemma ids_match_distinct:
  assumes "ids_match acc"
  shows "distinct (map report_id (map snd acc))
         \<and> set (map report_id (map snd acc)) = (\<lambda>k. Some (Str k)) ` set (map fst acc)"
proof -
  from assms have "distinct (map fst acc)" by (simp add: ids_match_def)
  then have "distinct (map (\<lambda>k. Some (Str k)) (map fst acc))"
    by (simp add: distinct_map inj_on_def)
  then show ?thesis by (simp add: ids_match_output [OF assms] del: map_map)
qed

section \<open>The transforms on the sample inputs\<close>

lemmas sample_ev = sample_config_def sample_query_def uncategorized_def aws_april_100_def
  aws_may_120_def aws_april_70_def aws_sample_rows_def azure_april_row_def azure_april_row2_def
  azure_sample_rows_def mongo_sample_header_def mongo_april_line_def mongo_april_line2_def
  mongo_sample_csv_def aws_sample_report_def azure_sample_report_def mongo_sample_report_def

lemma aws_sample_eval:
  "aws_accumulate ''AWS'' uncategorized sample_config sample_query aws_sample_rows
     = Inr [(''prod_Amazon Elastic Compute Cloud - Compute'', aws_sample_report)]"
  by (simp add: sample_ev str_ev num_ev obj_ev aws_ev)

lemma azure_sample_eval:
  "azure_accumulate ''Azure'' uncategorized 0 sample_config sample_query azure_sample_rows
     = Inr [(''prod->Azure App Service'', azure_sample_report)]"
  by (simp add: sample_ev str_ev num_ev date_ev obj_ev azure_ev)

lemma mongo_sample_eval:
  "mongo_accumulate ''MongoAtlas'' uncategorized 0 sample_config sample_query mongo_sample_csv
     = Inr [(''prod->Uncategorized->p1->c1'', mongo_sample_report)]"
  by (simp add: sample_ev str_ev num_ev date_ev obj_ev mongo_ev)

lemma sample_static_tags: "static_tags (tags sample_config) = Inr [(''team'', ''core'')]"
  by (simp add: sample_ev static_tags_def tag_step_def str_ev)

section \<open>Report ids and key names\<close>

text \<open>
  Claim C8, as amended. Let the static tags of the sub-account define no tag named
  \<^verbatim>\<open>id\<close>. Whenever a transform succeeds, the ids of its Reports are pairwise distinct
  and are exactly the key names of its input (AWS: of every group of every row; Azure:
  of every row; MongoAtlas: of every line after the header whose date parses): rows of
  equal key name merge into one Report whose id is that key name. For AWS and Azure the
  key name is the account name and the service name of the row, so two rows have the
  same key exactly when they have the same service name; for MongoAtlas it is the
  account name, the category of the SKU, the project and the cluster, without the
  service name.
\<close>

theorem report_ids_are_keyNames:
  assumes "static_tags (tags config) = Inr tagKeyValues" and "map_of tagKeyValues ''id'' = None"
  shows
    "(aws_transformCostsData provider category_of config query aws_rows = Inr aws_reports \<longrightarrow>
        distinct (map report_id aws_reports)
        \<and> set (map report_id aws_reports)
            = (\<lambda>k. Some (Str k)) ` set (aws_keyNames (name config) aws_rows))
     \<and> (azure_transformCostsData provider category_of tz config query azure_rows
          = Inr azure_reports \<longrightarrow>
        distinct (map report_id azure_reports)
        \<and> set (map report_id azure_reports)
            = (\<lambda>k. Some (Str k)) ` set (azure_keyNames (name config) azure_rows))
     \<and> (mongo_transformCostsData provider category_of tz config query csv = Inr mongo_reports \<longrightarrow>
        distinct (map report_id mongo_reports)
        \<and> set (map report_id mongo_reports)
            = (\<lambda>k. Some (Str k)) ` set (mongo_keyNames category_of (name config) csv))
     \<and> (aws_keyName accountName g = aws_keyName accountName g'
          \<longleftrightarrow> template_str (aws_serviceName g) = template_str (aws_serviceName g'))
     \<and> (azure_keyName accountName r = azure_keyName accountName r'
          \<longleftrightarrow> serviceName r = serviceName r')
     \<and> mongo_keyName category_of accountName rowData
          = accountName @ ''->'' @ category_of (rowData ''SKU'') @ ''->''
            @ or_Unknown (rowData ''Project'') @ ''->'' @ or_Unknown (rowData ''Cluster'')"
proof -
  have aws: "distinct (map report_id aws_reports)
        \<and> set (map report_id aws_reports)
            = (\<lambda>k. Some (Str k)) ` set (aws_keyNames (name config) aws_rows)"
    if "aws_transformCostsData provider category_of config query aws_rows = Inr aws_reports"
  proof -
    from that obtain acc where
      acc: "aws_accumulate provider category_of config query aws_rows = Inr acc"
      and out: "aws_reports = map snd acc"
      by (auto simp: aws_transformCostsData_def split: sum.splits)
    from aws_accumulate_ids [OF assms acc] ids_match_distinct [of acc] out
    show ?thesis by simp
  qed
  have azure: "distinct (map report_id azure_reports)
        \<and> set (map report_id azure_reports)
            = (\<lambda>k. Some (Str k)) ` set (azure_keyNames (name config) azure_rows)"
    if "azure_transformCostsData provider category_of tz config query azure_rows = Inr azure_reports"
  proof -
    from that obtain acc where
      acc: "azure_accumulate provider category_of tz config query azure_rows = Inr acc"
      and out: "azure_reports = map snd acc"
      by (auto simp: azure_transformCostsData_def split: sum.splits)
    from azure_accumulate_ids [OF assms acc] ids_match_distinct [of acc] out
    show ?thesis by simp
  qed
  have mongo: "distinct (map report_id mongo_reports)
        \<and> set (map report_id mongo_reports)
            = (\<lambda>k. Some (Str k)) ` set (mongo_keyNames category_of (name config) csv)"
    if "mongo_transformCostsData provider category_of tz config query csv = Inr mongo_reports"
  proof -
    from that obtain acc where
      acc: "mongo_accumulate provider category_of tz config query csv = Inr acc"
      and out: "mongo_reports = map snd acc"
      by (auto simp: mongo_transformCostsData_def split: sum.splits)
    from mongo_accumulate_ids [OF assms acc] ids_match_distinct [of acc] out
    show ?thesis by simp
  qed
  have k1: "aws_keyName accountName g = aws_keyName accountName g'
          \<longleftrightarrow> template_str (aws_serviceName g) = template_str (aws_serviceName g')"
    by (simp add: aws_keyName_def)
  have k2: "azure_keyName accountName r = azure_keyName accountName r'
          \<longleftrightarrow> serviceName r = serviceName r'"
    by (simp add: azure_keyName_def)
  have k3: "mongo_keyName category_of accountName rowData
          = accountName @ ''->'' @ category_of (rowData ''SKU'') @ ''->''
            @ or_Unknown (rowData ''Project'') @ ''->'' @ or_Unknown (rowData ''Cluster'')"
    by (simp add: mongo_keyName_def)
  from aws azure mongo k1 k2 k3 show ?thesis by blast
qed

theorem report_ids_are_keyNames_witness:
  "static_tags (tags sample_config) = Inr [(''team'', ''core'')]
   \<and> map_of [(''team'', ''core'')] ''id'' = None
   \<and> aws_transformCostsData ''AWS'' uncategorized sample_config sample_query aws_sample_rows
       = Inr [aws_sample_report]
   \<and> azure_transformCostsData ''Azure'' uncategorized 0 sample_config sample_query azure_sample_rows
       = Inr [azure_sample_report]
   \<and> mongo_transformCostsData ''MongoAtlas'' uncategorized 0 sample_config sample_query
        mongo_sample_csv = Inr [mongo_sample_report]
   \<and> set (map report_id [aws_sample_report])
       = (\<lambda>k. Some (Str k)) ` set (aws_keyNames (name sample_config) aws_sample_rows)
   \<and> set (map report_id [azure_sample_report])
       = (\<lambda>k. Some (Str k)) ` set (azure_keyNames (name sample_config) azure_sample_rows)
   \<and> set (map report_id [mongo_sample_report])
       = (\<lambda>k. Some (Str k)) ` set (mongo_keyNames uncategorized (name sample_config) mongo_sample_csv)"
proof -
  have h1: "static_tags (tags sample_config) = Inr [(''team'', ''core'')]"
    by (rule sample_static_tags)
  have h2: "map_of [(''team'', ''core'')] ''id'' = None" by simp
  have a: "aws_transformCostsData ''AWS'' uncategorized sample_config sample_query aws_sample_rows
       = Inr [aws_sample_report]"
    by (simp add: aws_transformCostsData_def aws_sample_eval)
  have z: "azure_transformCostsData ''Azure'' uncategorized 0 sample_config sample_query
       azure_sample_rows = Inr [azure_sample_report]"
    by (simp add: azure_transformCostsData_def azure_sample_eval)
  have m: "mongo_transformCostsData ''MongoAtlas'' uncategorized 0 sample_config sample_query
        mongo_sample_csv = Inr [mongo_sample_report]"
    by (simp add: mongo_transformCostsData_def mongo_sample_eval)
  note aws = report_ids_are_keyNames [OF h1 h2, where provider = "''AWS''"
      and category_of = uncategorized and query = sample_query and aws_rows = aws_sample_rows
      and aws_reports = "[aws_sample_report]"]
  note azure = report_ids_are_keyNames [OF h1 h2, where provider = "''Azure''"
      and category_of = uncategorized and query = sample_query and tz = 0
      and azure_rows = azure_sample_rows and azure_reports = "[azure_sample_report]"]
  note mongo = report_ids_are_keyNames [OF h1 h2, where provider = "''MongoAtlas''"
      and category_of = uncategorized and query = sample_query and tz = 0
      and csv = mongo_sample_csv and mongo_reports = "[mongo_sample_report]"]
  note c1 = aws [THEN conjunct1, THEN mp, OF a, THEN conjunct2]
  note c2 = azure [THEN conjunct2, THEN conjunct1, THEN mp, OF z, THEN conjunct2]
  note c3 = mongo [THEN conjunct2, THEN conjunct2, THEN conjunct1, THEN mp, OF m, THEN conjunct2]
  show ?thesis by (intro conjI h1 h2 a z m c1 c2 c3)
qed

text \<open>
  The claim as stated fails for MongoAtlas: the two rows of the sample CSV have the
  different SKUs "Atlas Instance" and "Atlas Backup", and the transform makes a single
  Report of them, whose id holds the category and not the service name.
\<close>

theorem mongo_two_services_one_report_counterexample:
  "mongo_sample_csv
     = ''Date,SKU,Project,Cluster,Amount'' @ [CHR 0x0A]
       @ ''04/05/2024,Atlas Instance,p1,c1,10'' @ [CHR 0x0A]
       @ ''04/28/2024,Atlas Backup,p1,c1,5''
   \<and> mongo_transformCostsData ''MongoAtlas'' uncategorized 0 sample_config sample_query
        mongo_sample_csv = Inr [mongo_sample_report]
   \<and> report_id mongo_sample_report = Some (Str ''prod->Uncategorized->p1->c1'')
   \<and> map_of mongo_sample_report ''service'' = Some (Str ''MongoAtlas/Instance'')"
proof -
  have m: "mongo_transformCostsData ''MongoAtlas'' uncategorized 0 sample_config sample_query
        mongo_sample_csv = Inr [mongo_sample_report]"
    by (simp add: mongo_transformCostsData_def mongo_sample_eval)
  have i: "report_id mongo_sample_report = Some (Str ''prod->Uncategorized->p1->c1'')"
    by (simp add: report_id_def mongo_sample_report_def)
  have s: "map_of mongo_sample_report ''service'' = Some (Str ''MongoAtlas/Instance'')"
    by (simp add: mongo_sample_report_def)
  have c: "mongo_sample_csv
     = ''Date,SKU,Project,Cluster,Amount'' @ [CHR 0x0A]
       @ ''04/05/2024,Atlas Instance,p1,c1,10'' @ [CHR 0x0A]
       @ ''04/28/2024,Atlas Backup,p1,c1,5''"
    by (simp add: mongo_sample_csv_def mongo_sample_header_def mongo_april_line_def
        mongo_april_line2_def)
  show ?thesis by (intro conjI c m i s)
qed

section \<open>The buckets written for one row\<close>






lemma aws_group_step_metrics:
  assumes "aws_group_step provider category_of accountName tkv period acc g = Inr acc'"
    and "Metrics g = Some groupMetrics"
  shows "\<exists>amount. map_of groupMetrics ''UnblendedCost'' = Some amount
           \<and> read_bucket acc' (aws_keyName accountName g) period
               = Some (parseFloat (case amount of None \<Rightarrow> ''0.0'' | Some a \<Rightarrow> a))
           \<and> same_buckets_except (aws_keyName accountName g) period acc acc'"
proof -
  define k where "k = aws_keyName accountName g"
  note step = assms(1) [unfolded aws_group_step_def Let_def, folded k_def]
  obtain acc1 amount where r1: "\<And>k' p'. read_bucket acc1 k' p' = read_bucket acc k' p'"
    and am: "map_of groupMetrics ''UnblendedCost'' = Some amount"
    and wb: "write_bucket acc1 k period (parseFloat (case amount of None \<Rightarrow> ''0.0'' | Some a \<Rightarrow> a))
               = Inr acc'"
  proof (cases "map_of acc k")
    case None
    with step obtain sn where sn: "aws_serviceName g = Some sn"
      by (auto split: option.splits)
    define acc1 where "acc1 = acc @ [(k, new_report k (provider @ ''/'' @ accountName)
                                (aws_convertServiceName provider sn) (category_of (Some sn))
                                provider [] tkv)]"
    have "read_bucket acc1 k' p' = read_bucket acc k' p'" for k' p'
      unfolding acc1_def using None by (rule read_bucket_fresh)
    moreover from step None sn assms(2) obtain amount where
      "map_of groupMetrics ''UnblendedCost'' = Some amount"
      "write_bucket acc1 k period (parseFloat (case amount of None \<Rightarrow> ''0.0'' | Some a \<Rightarrow> a))
               = Inr acc'"
      by (auto simp: acc1_def split: option.splits)
    ultimately show ?thesis using that by blast
  next
    case (Some r)
    with step assms(2) obtain amount where
      "map_of groupMetrics ''UnblendedCost'' = Some amount"
      "write_bucket acc k period (parseFloat (case amount of None \<Rightarrow> ''0.0'' | Some a \<Rightarrow> a))
               = Inr acc'"
      by (auto split: option.splits)
    then show ?thesis using that by blast
  qed
  from write_bucket_read [OF wb] r1 am show ?thesis
    by (auto simp: same_buckets_except_def k_def)
qed

section \<open>A transform after one more row\<close>






section \<open>Formatting a date and reading it back\<close>















section \<open>The buckets after a whole batch\<close>

lemma last_value_Nil [simp]: "last_value init [] kp = init"
  by (simp add: last_value_def)

lemma last_value_append:
  "last_value init (cs @ ds) kp = last_value (last_value init cs kp) ds kp"
  by (simp add: last_value_def map_add_def split: option.splits)

lemma summed_value_Nil [simp]: "summed_value init [] kp = init"
  by (simp add: summed_value_def)


lemma fold_err_last_value:
  assumes "\<And>a x a'. f a x = Inr a' \<Longrightarrow>
             read_bucket a' k p = last_value (read_bucket a k p) (c x) (k, p)"
  shows "fold_err f xs a = Inr b \<Longrightarrow>
           read_bucket b k p = last_value (read_bucket a k p) (concat (map c xs)) (k, p)"
proof (induction xs arbitrary: a)
  case Nil
  then show ?case by simp
next
  case (Cons x xs)
  from Cons.prems obtain a' where a': "f a x = Inr a'" and rest: "fold_err f xs a' = Inr b"
    by (auto split: sum.splits)
  from Cons.IH [OF rest] assms [OF a'] show ?case
    by (simp add: last_value_append)
qed


lemma read_bucket_Nil [simp]: "read_bucket [] k p = None"
  by (simp add: read_bucket_def)

lemma aws_group_step_last_value:
  assumes "aws_group_step provider category_of accountName tkv period acc g = Inr acc'"
  shows "read_bucket acc' k p
           = last_value (read_bucket acc k p) (aws_group_contribution accountName period g) (k, p)"
proof (cases "Metrics g")
  case None
  with assms have "read_bucket acc' k p = read_bucket acc k p"
    by (auto simp: aws_group_step_def Let_def read_bucket_fresh split: if_splits option.splits)
  with None show ?thesis by (simp add: aws_group_contribution_def)
next
  case (Some ms)
  from aws_group_step_metrics [OF assms Some] obtain amount where
    am: "map_of ms ''UnblendedCost'' = Some amount"
    and r: "read_bucket acc' (aws_keyName accountName g) period
              = Some (parseFloat (case amount of None \<Rightarrow> ''0.0'' | Some a \<Rightarrow> a))"
    and o: "same_buckets_except (aws_keyName accountName g) period acc acc'"
    by blast
  show ?thesis
  proof (cases "(k, p) = (aws_keyName accountName g, period)")
    case True
    with r Some am show ?thesis by (simp add: aws_group_contribution_def last_value_def)
  next
    case False
    with o have "read_bucket acc' k p = read_bucket acc k p"
      by (simp add: same_buckets_except_def)
    with False Some am show ?thesis by (auto simp: aws_group_contribution_def last_value_def)
  qed
qed

lemma aws_row_step_last_value:
  assumes "aws_row_step provider category_of accountName tkv query acc row = Inr acc'"
  shows "read_bucket acc' k p
           = last_value (read_bucket acc k p) (aws_row_contributions query accountName row) (k, p)"
proof (cases "Groups row")
  case None
  with assms show ?thesis by (simp add: aws_row_step_def aws_row_contributions_def)
next
  case (Some gs)
  with assms have f: "fold_err (aws_group_step provider category_of accountName tkv
                      (aws_period query row)) gs acc = Inr acc'"
    by (simp add: aws_row_step_def)
  have "read_bucket acc' k p = last_value (read_bucket acc k p)
          (concat (map (aws_group_contribution accountName (aws_period query row)) gs)) (k, p)"
    using f by (rule fold_err_last_value [rotated]) (rule aws_group_step_last_value)
  with Some show ?thesis by (simp add: aws_row_contributions_def)
qed

lemma aws_accumulate_buckets:
  assumes "aws_accumulate provider category_of config query rows = Inr acc"
  shows "read_bucket acc k p = last_value None (aws_contributions query (name config) rows) (k, p)"
proof -
  from assms obtain tkv where
    f: "fold_err (aws_row_step provider category_of (name config) tkv query) rows [] = Inr acc"
    by (auto simp: aws_accumulate_def split: sum.splits)
  have "read_bucket acc k p = last_value (read_bucket [] k p)
          (concat (map (aws_row_contributions query (name config)) rows)) (k, p)"
    using f by (rule fold_err_last_value [rotated]) (rule aws_row_step_last_value)
  then show ?thesis by (simp add: aws_contributions_def)
qed





section \<open>The start-time test\<close>

lemma isBefore_Some [simp]: "isBefore (Some t) (Some s) = (t < s)"
  by (simp add: isBefore_def)


























section \<open>Additive and overwriting buckets\<close>












end
